theory Spec2Isabelle
  imports Complex_Main "HOL-Library.Word" "HOL-Library.Signed_Division" "HOL-Library.AList"
begin

section \<open>Failures of the C++ runtime, as values\<close>

text \<open>
  Every way in which the two translation units can stop instead of returning is a
  constructor. None of them is an error code handed back to a caller: the functions
  of \<^verbatim>\<open>wenet_api.cc\<close> return \<^verbatim>\<open>void\<close>, glog's \<^verbatim>\<open>CHECK\<close> macros log at
  severity FATAL and abort the process, an uncaught C++ exception ends in
  \<^verbatim>\<open>std::terminate\<close>, and the remaining cases are undefined behaviour.
\<close>

datatype error =
    Check_failed      \<comment> \<open>a glog CHECK that fails: the process aborts\<close>
  | Null_deref        \<comment> \<open>\<^verbatim>\<open>operator->\<close> on an empty \<^verbatim>\<open>shared_ptr\<close>\<close>
  | Length_error      \<comment> \<open>a \<^verbatim>\<open>std::vector\<close> asked for a negative (huge unsigned) size\<close>
  | Out_of_bounds     \<comment> \<open>a read or write outside a buffer\<close>
  | Division_by_zero  \<comment> \<open>integer division by zero\<close>
  | Signed_overflow   \<comment> \<open>\<^verbatim>\<open>int\<close> arithmetic leaving the 32-bit range\<close>
  | Ort_error         \<comment> \<open>an exception raised by the inference engine\<close>

definition int32 :: "int \<Rightarrow> bool" where
  "int32 x \<longleftrightarrow> - (2 ^ 31) \<le> x \<and> x < 2 ^ 31"

text \<open>\<^verbatim>\<open>std::vector::resize(n, v)\<close>: keeps the first \<open>n\<close> elements and pads with \<open>v\<close>.\<close>

definition resize :: "nat \<Rightarrow> 'a \<Rightarrow> 'a list \<Rightarrow> 'a list" where
  "resize n v xs = take n xs @ replicate (n - length xs) v"

section \<open>The recognizer of \<^verbatim>\<open>api/wenet_api.cc\<close>\<close>

subsection \<open>The result document\<close>

text \<open>
  The JSON values \<^verbatim>\<open>UpdateResult\<close> builds. An object is an association list; writing
  \<^verbatim>\<open>obj[key] = v\<close> replaces the entry of an existing key and adds a new one otherwise.
\<close>

datatype JSON =
    JString string
  | JInt int
  | JArray "JSON list"
  | JObject "(string \<times> JSON) list"

fun json_assign :: "string \<Rightarrow> JSON \<Rightarrow> JSON \<Rightarrow> JSON" where
  "json_assign k v (JObject kvs) = JObject (AList.update k v kvs)"
| "json_assign k v j = JObject [(k, v)]"

fun json_member :: "string \<Rightarrow> JSON \<Rightarrow> JSON option" where
  "json_member k (JObject kvs) = map_of kvs k"
| "json_member k j = None"

fun json_elements :: "JSON option \<Rightarrow> JSON list" where
  "json_elements (Some (JArray xs)) = xs"
| "json_elements j = []"

record WordPiece =
  wp_word :: string
  wp_start :: int
  wp_end :: int

record DecodeResult =
  sentence :: string
  word_pieces :: "WordPiece list"

definition piece_json :: "WordPiece \<Rightarrow> JSON" where
  "piece_json word_piece =
     json_assign ''end'' (JInt (wp_end word_piece))
       (json_assign ''start'' (JInt (wp_start word_piece))
          (json_assign ''word'' (JString (wp_word word_piece)) (JObject [])))"

text \<open>The body of the loop of \<^verbatim>\<open>UpdateResult\<close>: the entry \<^verbatim>\<open>one\<close> of one hypothesis.\<close>

definition one_json :: "bool \<Rightarrow> bool \<Rightarrow> DecodeResult \<Rightarrow> JSON" where
  "one_json final_result enable_timestamp res =
     (let one = json_assign ''sentence'' (JString (sentence res)) (JObject []);
          one = (if final_result \<and> enable_timestamp
                 then json_assign ''word_pieces'' (JArray (map piece_json (word_pieces res))) one
                 else one)
      in json_assign ''sentence'' (JString (sentence res)) one)"

text \<open>
  The document \<^verbatim>\<open>obj\<close> of \<^verbatim>\<open>UpdateResult\<close>. The loop runs while
  \<^verbatim>\<open>i < nbest && i < decoder_->result().size()\<close>, from 0: it takes the first
  \<open>nbest\<close> results, none when \<open>nbest \<le> 0\<close>.
\<close>

definition result_doc :: "bool \<Rightarrow> int \<Rightarrow> bool \<Rightarrow> DecodeResult list \<Rightarrow> JSON" where
  "result_doc final_result nbest_v enable_timestamp results =
     (let obj = json_assign ''type''
                  (JString (if final_result then ''final_result'' else ''partial_result''))
                  (JObject []);
          nbest = (if final_result then nbest_v else 1)
      in json_assign ''nbest''
           (JArray (map (one_json final_result enable_timestamp) (take (nat nbest) results)))
           obj)"

subsection \<open>The collaborators outside the two files\<close>

text \<open>
  The feature pipeline, the context graph, the decoder and the JSON printer are
  declared in headers that are not part of the two files. They are parameters: a
  state space \<open>'p\<close> of the pipeline, \<open>'d\<close> of the decoder, \<open>'g\<close> of context graphs, and
  the operations the recognizer calls on them. The decoder holds the same pipeline
  object as the recognizer (both hold a \<^verbatim>\<open>shared_ptr\<close> to it), so an operation of
  the decoder takes and returns the pipeline's state as well.
\<close>

datatype DecodeState = kEndBatch | kEndpoint | kEndFeats | kWaitFeats

record ('p, 'd, 'g) externals =
  FeaturePipeline_Reset :: "'p \<Rightarrow> 'p"
  AcceptWaveform :: "real list \<Rightarrow> 'p \<Rightarrow> 'p"
  set_input_finished :: "'p \<Rightarrow> 'p"
  BuildContextGraph :: "real option \<Rightarrow> string list \<Rightarrow> 'g"
  AsrDecoder_new :: "'g option \<Rightarrow> 'p \<Rightarrow> 'd"
  AsrDecoder_Reset :: "'p \<times> 'd \<Rightarrow> 'p \<times> 'd"
  AsrDecoder_Decode :: "'p \<times> 'd \<Rightarrow> DecodeState \<times> 'p \<times> 'd"
  AsrDecoder_Rescoring :: "'p \<times> 'd \<Rightarrow> 'p \<times> 'd"
  AsrDecoder_result :: "'d \<Rightarrow> DecodeResult list"
  json_dump :: "JSON \<Rightarrow> string"

subsection \<open>The class \<^verbatim>\<open>Recognizer\<close>\<close>

text \<open>
  The fields a method reads or writes; the member \<^verbatim>\<open>nbest_\<close> is the field
  \<open>nbest_m\<close>, and so on (a name cannot end in an underscore here). \<open>decoder_m\<close> is
  \<open>None\<close> for the null pointer. \<open>resource_context_graph\<close> is
  \<^verbatim>\<open>resource_->context_graph\<close>. \<^verbatim>\<open>context_score_\<close> has no initializer in the
  class: \<open>None\<close> until \<^verbatim>\<open>set_context_score\<close> stores a value.
\<close>

record ('p, 'd, 'g) Recognizer =
  feature_pipeline_m :: 'p
  resource_context_graph :: "'g option"
  decoder_m :: "'d option"
  nbest_m :: int
  result_m :: string
  enable_timestamp_m :: bool
  context_m :: "string list"
  context_score_m :: "real option"

text \<open>The constructor, from the state \<open>p0\<close> of a new feature pipeline.\<close>

definition new_Recognizer :: "'p \<Rightarrow> ('p, 'd, 'g) Recognizer" where
  "new_Recognizer p0 =
     \<lparr> feature_pipeline_m = p0, resource_context_graph = None, decoder_m = None,
       nbest_m = 1, result_m = [], enable_timestamp_m = False, context_m = [],
       context_score_m = None \<rparr>"

definition set_nbest :: "int \<Rightarrow> ('p, 'd, 'g) Recognizer \<Rightarrow> ('p, 'd, 'g) Recognizer" where
  "set_nbest n r = r\<lparr>nbest_m := n\<rparr>"

definition set_enable_timestamp :: "bool \<Rightarrow> ('p, 'd, 'g) Recognizer \<Rightarrow> ('p, 'd, 'g) Recognizer" where
  "set_enable_timestamp flag r = r\<lparr>enable_timestamp_m := flag\<rparr>"

definition AddContext :: "string \<Rightarrow> ('p, 'd, 'g) Recognizer \<Rightarrow> ('p, 'd, 'g) Recognizer" where
  "AddContext w r = r\<lparr>context_m := context_m r @ [w]\<rparr>"

definition set_context_score :: "real \<Rightarrow> ('p, 'd, 'g) Recognizer \<Rightarrow> ('p, 'd, 'g) Recognizer" where
  "set_context_score score r = r\<lparr>context_score_m := Some score\<rparr>"

definition Reset ::
  "('p, 'd, 'g) externals \<Rightarrow> ('p, 'd, 'g) Recognizer \<Rightarrow> error + ('p, 'd, 'g) Recognizer" where
  "Reset X r =
     (let p1 = FeaturePipeline_Reset X (feature_pipeline_m r)
      in case decoder_m r of
           None \<Rightarrow> Inl Null_deref
         | Some d \<Rightarrow>
             (case AsrDecoder_Reset X (p1, d) of
                (p2, d2) \<Rightarrow>
                  Inr (r\<lparr>feature_pipeline_m := p2, decoder_m := Some d2, result_m := []\<rparr>)))"

definition UpdateResult ::
  "('p, 'd, 'g) externals \<Rightarrow> bool \<Rightarrow> ('p, 'd, 'g) Recognizer \<Rightarrow> error + ('p, 'd, 'g) Recognizer" where
  "UpdateResult X final_result r =
     (case decoder_m r of
        None \<Rightarrow> Inl Null_deref
      | Some d \<Rightarrow>
          Inr (r\<lparr>result_m := json_dump X
                 (result_doc final_result (nbest_m r) (enable_timestamp_m r)
                    (AsrDecoder_result X d))\<rparr>))"

definition Rescoring ::
  "('p, 'd, 'g) externals \<Rightarrow> ('p, 'd, 'g) Recognizer \<Rightarrow> error + ('p, 'd, 'g) Recognizer" where
  "Rescoring X r =
     (case decoder_m r of
        None \<Rightarrow> Inl Null_deref
      | Some d \<Rightarrow>
          (case AsrDecoder_Rescoring X (feature_pipeline_m r, d) of
             (p2, d2) \<Rightarrow> Inr (r\<lparr>feature_pipeline_m := p2, decoder_m := Some d2\<rparr>)))"

text \<open>Sequencing of steps that can fail: the first failure ends the run.\<close>

fun and_then :: "error + 'a \<Rightarrow> ('a \<Rightarrow> error + 'b) \<Rightarrow> error + 'b" where
  "and_then (Inl e) f = Inl e"
| "and_then (Inr x) f = f x"

text \<open>
  The \<^verbatim>\<open>while (true)\<close> loop of \<^verbatim>\<open>Decode\<close>. Nothing bounds the number of rounds in
  which the decoder answers \<^verbatim>\<open>kEndBatch\<close> or \<^verbatim>\<open>kEndpoint\<close>, so the loop is a partial
  function: \<open>None\<close> is the run that never leaves the loop.
\<close>

partial_function (option) decode_loop ::
  "('p, 'd, 'g) externals \<Rightarrow> ('p, 'd, 'g) Recognizer \<Rightarrow> (error + ('p, 'd, 'g) Recognizer) option" where
  "decode_loop X r =
     (case decoder_m r of
        None \<Rightarrow> Some (Inl Null_deref)
      | Some d \<Rightarrow>
          (case AsrDecoder_Decode X (feature_pipeline_m r, d) of
             (state, p1, d1) \<Rightarrow>
               (if state = kWaitFeats
                then Some (Inr (r\<lparr>feature_pipeline_m := p1, decoder_m := Some d1\<rparr>))
                else if state = kEndFeats
                then Some (and_then (and_then
                        (UpdateResult X True (r\<lparr>feature_pipeline_m := p1, decoder_m := Some d1\<rparr>))
                        (Rescoring X)) (UpdateResult X True))
                else (case UpdateResult X False (r\<lparr>feature_pipeline_m := p1, decoder_m := Some d1\<rparr>) of
                        Inl e \<Rightarrow> Some (Inl e)
                      | Inr r2 \<Rightarrow> decode_loop X r2))))"

text \<open>
  The sample \<open>i\<close> of the buffer: \<^verbatim>\<open>*reinterpret_cast<const int16_t*>(data + i * 2)\<close> on
  a little-endian host, converted to \<^verbatim>\<open>float\<close> (exact for 16-bit values).
\<close>

definition pcm_sample :: "8 word list \<Rightarrow> nat \<Rightarrow> real" where
  "pcm_sample bytes i =
     real_of_int (sint (word_cat (bytes ! (2 * i + 1)) (bytes ! (2 * i)) :: 16 word))"

text \<open>
  The first part of \<^verbatim>\<open>Decode\<close>: the decoder is built when the pointer is null, the
  context graph before it when a phrase has been added.
\<close>

definition init_decoder ::
  "('p, 'd, 'g) externals \<Rightarrow> ('p, 'd, 'g) Recognizer \<Rightarrow> ('p, 'd, 'g) Recognizer" where
  "init_decoder X r =
     (if decoder_m r = None
      then (let r1 = (if length (context_m r) > 0
                      then r\<lparr>resource_context_graph :=
                               Some (BuildContextGraph X (context_score_m r) (context_m r))\<rparr>
                      else r)
            in r1\<lparr>decoder_m := Some (AsrDecoder_new X (resource_context_graph r1)
                                       (feature_pipeline_m r1))\<rparr>)
      else r)"

text \<open>
  \<^verbatim>\<open>Decode(data, len, last)\<close>. \<open>bytes\<close> is the buffer behind \<^verbatim>\<open>data\<close>; \<open>len\<close> is the
  \<^verbatim>\<open>int\<close> the caller passes. C++ \<^verbatim>\<open>%\<close> and \<^verbatim>\<open>/\<close> truncate towards zero
  (\<open>smod\<close>, \<open>sdiv\<close>). A negative even \<open>len\<close> makes \<^verbatim>\<open>len / 2\<close> negative, which
  \<^verbatim>\<open>std::vector\<close> reads as a huge unsigned size and refuses.
\<close>

definition Decode ::
  "('p, 'd, 'g) externals \<Rightarrow> ('p, 'd, 'g) Recognizer \<Rightarrow> 8 word list \<Rightarrow> int \<Rightarrow> int
     \<Rightarrow> (error + ('p, 'd, 'g) Recognizer) option" where
  "Decode X r bytes len is_last =
     (let r1 = init_decoder X r
      in if len smod 2 \<noteq> 0 then Some (Inl Check_failed)
         else if len sdiv 2 < 0 then Some (Inl Length_error)
         else if int (length bytes) < len then Some (Inl Out_of_bounds)
         else (let wav = map (pcm_sample bytes) [0 ..< nat (len sdiv 2)];
                   p1 = AcceptWaveform X wav (feature_pipeline_m r1);
                   p2 = (if is_last > 0 then set_input_finished X p1 else p1)
               in decode_loop X (r1\<lparr>feature_pipeline_m := p2\<rparr>)))"

declare decode_loop.simps [code]

subsection \<open>The C entry points, and runs of calls\<close>

datatype call =
    wenet_reset
  | wenet_decode "8 word list" int int
  | wenet_set_nbest int
  | wenet_set_timestamp int
  | wenet_add_context string
  | wenet_set_context_score real

fun is_decode :: "call \<Rightarrow> bool" where
  "is_decode (wenet_decode bytes len is_last) = True"
| "is_decode c = False"

fun do_call ::
  "('p, 'd, 'g) externals \<Rightarrow> call \<Rightarrow> ('p, 'd, 'g) Recognizer
     \<Rightarrow> (error + ('p, 'd, 'g) Recognizer) option" where
  "do_call X wenet_reset r = Some (Reset X r)"
| "do_call X (wenet_decode bytes len is_last) r = Decode X r bytes len is_last"
| "do_call X (wenet_set_nbest n) r = Some (Inr (set_nbest n r))"
| "do_call X (wenet_set_timestamp flag) r =
     Some (Inr (set_enable_timestamp (if flag > 0 then True else False) r))"
| "do_call X (wenet_add_context w) r = Some (Inr (AddContext w r))"
| "do_call X (wenet_set_context_score score) r = Some (Inr (set_context_score score r))"

text \<open>
  A host program that makes the calls \<open>cs\<close> in order on one recognizer. A call that
  aborts the process ends the run with its failure, and a call that never returns ends
  it with \<open>None\<close>: no later call is made.
\<close>

fun run ::
  "('p, 'd, 'g) externals \<Rightarrow> call list \<Rightarrow> ('p, 'd, 'g) Recognizer
     \<Rightarrow> (error + ('p, 'd, 'g) Recognizer) option" where
  "run X [] r = Some (Inr r)"
| "run X (c # cs) r =
     (case do_call X c r of
        None \<Rightarrow> None
      | Some (Inl e) \<Rightarrow> Some (Inl e)
      | Some (Inr r1) \<Rightarrow> run X cs r1)"

subsection \<open>A small instance of the collaborators\<close>

text \<open>
  An instance for evaluating the definitions: the pipeline counts the samples it holds
  and remembers the end of input, the decoder consumes up to two samples per round and
  keeps the graph it was built with, a graph is the score and phrases it was built from.
\<close>

type_synonym toy_pipeline = "nat \<times> bool"
type_synonym toy_graph = "real option \<times> string list"
type_synonym toy_decoder = "toy_graph option \<times> nat"

definition toy_results :: "toy_decoder \<Rightarrow> DecodeResult list" where
  "toy_results d =
     replicate 2 \<lparr> sentence = ''hi'',
                   word_pieces = [\<lparr> wp_word = ''hi'', wp_start = 0, wp_end = 40 \<rparr>] \<rparr>"

fun toy_decode :: "toy_pipeline \<times> toy_decoder \<Rightarrow> DecodeState \<times> toy_pipeline \<times> toy_decoder" where
  "toy_decode ((n, fin), (g, k)) =
     (if n \<ge> 2 then (kEndBatch, (n - 2, fin), (g, k + 1))
      else if fin then (kEndFeats, (0, fin), (g, k))
      else (kWaitFeats, (n, fin), (g, k)))"

fun toy_dump :: "JSON \<Rightarrow> string" where
  "toy_dump (JString s) = s"
| "toy_dump (JInt i) = ''#''"
| "toy_dump (JArray xs) = ''['' @ concat (map toy_dump xs) @ '']''"
| "toy_dump (JObject kvs) =
     ''{'' @ concat (map (\<lambda>(k, v). k @ '':'' @ toy_dump v @ '';'') kvs) @ ''}''"

definition toy :: "(toy_pipeline, toy_decoder, toy_graph) externals" where
  "toy =
     \<lparr> FeaturePipeline_Reset = (\<lambda>p. (0, False)),
       AcceptWaveform = (\<lambda>wav (n, fin). (n + length wav, fin)),
       set_input_finished = (\<lambda>(n, fin). (n, True)),
       BuildContextGraph = (\<lambda>score phrases. (score, phrases)),
       AsrDecoder_new = (\<lambda>g p. (g, 0)),
       AsrDecoder_Reset = (\<lambda>(p, (g, k)). ((0, False), (g, 0))),
       AsrDecoder_Decode = toy_decode,
       AsrDecoder_Rescoring = (\<lambda>(p, d). (p, d)),
       AsrDecoder_result = toy_results,
       json_dump = toy_dump \<rparr>"

subsection \<open>What a call leaves unchanged\<close>

text \<open>
  The configuration of a recognizer: the context graph of its resource and the four
  fields the setters write.
\<close>

definition same_config :: "('p, 'd, 'g) Recognizer \<Rightarrow> ('p, 'd, 'g) Recognizer \<Rightarrow> bool" where
  "same_config r r' \<longleftrightarrow>
     resource_context_graph r' = resource_context_graph r
     \<and> nbest_m r' = nbest_m r \<and> enable_timestamp_m r' = enable_timestamp_m r
     \<and> context_m r' = context_m r \<and> context_score_m r' = context_score_m r"

text \<open>
  The documents a call can have left in \<open>result_m\<close>: the text \<open>old\<close> that was there,
  or a dump of a document built from the values \<open>n\<close> and \<open>ts\<close>.
\<close>

definition written_with ::
  "('p, 'd, 'g) externals \<Rightarrow> int \<Rightarrow> bool \<Rightarrow> string \<Rightarrow> string \<Rightarrow> bool" where
  "written_with X n ts old new \<longleftrightarrow>
     new = old \<or> (\<exists>fin d. new = json_dump X (result_doc fin n ts (AsrDecoder_result X d)))"

text \<open>What a run of the loop that returns has done to the recognizer \<open>r\<close>.\<close>

definition loop_post ::
  "('p, 'd, 'g) externals \<Rightarrow> ('p, 'd, 'g) Recognizer \<Rightarrow> error + ('p, 'd, 'g) Recognizer \<Rightarrow> bool" where
  "loop_post X r y =
     (case y of
        Inl e \<Rightarrow> True
      | Inr r' \<Rightarrow>
          decoder_m r' \<noteq> None \<and> same_config r r'
          \<and> written_with X (nbest_m r) (enable_timestamp_m r) (result_m r) (result_m r'))"

definition r_timed :: "(toy_pipeline, toy_decoder, toy_graph) Recognizer" where
  "r_timed = \<lparr> feature_pipeline_m = (0, True), resource_context_graph = None,
       decoder_m = Some (None, 0), nbest_m = 2, result_m = [], enable_timestamp_m = True,
       context_m = [], context_score_m = None \<rparr>"

definition r_new :: "(toy_pipeline, toy_decoder, toy_graph) Recognizer" where
  "r_new = new_Recognizer (0, False)"



section \<open>The model adapter of \<^verbatim>\<open>decoder/onnx_asr_model.cc\<close>\<close>

subsection \<open>Tensors, sessions and checked arithmetic\<close>

text \<open>
  An \<^verbatim>\<open>Ort::Value\<close>: the null value, or a tensor with its shape and the buffer behind
  it. The element type \<open>'a\<close> stands for \<^verbatim>\<open>float\<close>; the model uses only its
  \<open>0\<close>, \<open>1\<close>, \<open>+\<close>, \<open>-\<close>, \<open>*\<close> and \<open><\<close>, in the order in which the source applies
  them, and no law of arithmetic.
\<close>

datatype 'a Value =
    Null
  | FloatTensor "int list" "'a list"
  | Int64Tensor "int list" "int list"
  | BoolTensor "int list" "8 word list"

text \<open>
  \<^verbatim>\<open>Ort::Session::Run\<close> of the three graphs is a parameter: the inference engine
  is outside the two files. It answers with the output values or raises.
\<close>

record 'a sessions =
  encoder_session_Run :: "'a Value list \<Rightarrow> error + 'a Value list"
  ctc_session_Run :: "'a Value list \<Rightarrow> error + 'a Value list"
  rescore_session_Run :: "'a Value list \<Rightarrow> error + 'a Value list"

fun GetShape :: "'a Value \<Rightarrow> error + int list" where
  "GetShape Null = Inl Ort_error"
| "GetShape (FloatTensor shape buf) = Inr shape"
| "GetShape (Int64Tensor shape buf) = Inr shape"
| "GetShape (BoolTensor shape buf) = Inr shape"

fun GetTensorData :: "'a Value \<Rightarrow> error + 'a list" where
  "GetTensorData (FloatTensor shape buf) = Inr buf"
| "GetTensorData v = Inl Ort_error"

text \<open>\<^verbatim>\<open>v[i]\<close> on a \<^verbatim>\<open>std::vector\<close> and \<^verbatim>\<open>*(p + i)\<close> on a buffer.\<close>

definition at_index :: "'b list \<Rightarrow> int \<Rightarrow> error + 'b" where
  "at_index xs i = (if 0 \<le> i \<and> i < int (length xs) then Inr (xs ! nat i) else Inl Out_of_bounds)"

text \<open>Arithmetic on \<^verbatim>\<open>int\<close>: a result outside the 32 bits is undefined behaviour.\<close>

definition mul32 :: "int \<Rightarrow> int \<Rightarrow> error + int" where
  "mul32 a b = (if int32 (a * b) then Inr (a * b) else Inl Signed_overflow)"

definition add32 :: "int \<Rightarrow> int \<Rightarrow> error + int" where
  "add32 a b = (if int32 (a + b) then Inr (a + b) else Inl Signed_overflow)"

definition sub32 :: "int \<Rightarrow> int \<Rightarrow> error + int" where
  "sub32 a b = (if int32 (a - b) then Inr (a - b) else Inl Signed_overflow)"

definition div32 :: "int \<Rightarrow> int \<Rightarrow> error + int" where
  "div32 a b =
     (if b = 0 then Inl Division_by_zero
      else if int32 (a sdiv b) then Inr (a sdiv b) else Inl Signed_overflow)"

text \<open>\<^verbatim>\<open>static_cast<int>\<close> of an \<^verbatim>\<open>int64_t\<close>: the low 32 bits, read as signed.\<close>

definition to_int32 :: "int \<Rightarrow> int" where
  "to_int32 x = sint (word_of_int x :: 32 word)"

text \<open>
  A \<^verbatim>\<open>std::vector\<close> sized by a signed number: a negative one becomes a huge
  \<^verbatim>\<open>size_t\<close>, which the vector refuses.
\<close>

definition vector_resize :: "int \<Rightarrow> 'b \<Rightarrow> 'b list \<Rightarrow> error + 'b list" where
  "vector_resize n v xs = (if n < 0 then Inl Length_error else Inr (resize (nat n) v xs))"

subsection \<open>The class \<^verbatim>\<open>OnnxAsrModel\<close>\<close>

text \<open>
  The members the three operations read or write, the member \<^verbatim>\<open>offset_\<close> as the
  field \<open>offset_m\<close>, and so on. \<open>att_cache_m\<close> and \<open>cnn_cache_m\<close> are the vectors whose
  buffers \<^verbatim>\<open>Reset\<close> wraps into tensors; \<open>att_cache_ort_m\<close> and \<open>cnn_cache_ort_m\<close>
  are the values handed to the encoder. Nothing in the file writes
  \<^verbatim>\<open>cached_feature_\<close>: the caller of \<^verbatim>\<open>ForwardEncoderFunc\<close> fills it.
\<close>

record 'a OnnxAsrModel =
  encoder_output_size_m :: int
  num_blocks_m :: int
  head_m :: int
  cnn_module_kernel_m :: int
  sos_m :: int
  eos_m :: int
  is_bidirectional_decoder_m :: bool
  chunk_size_m :: int
  num_left_chunks_m :: int
  offset_m :: int
  encoder_in_names_m :: "string list"
  att_cache_m :: "'a list"
  cnn_cache_m :: "'a list"
  att_cache_ort_m :: "'a Value"
  cnn_cache_ort_m :: "'a Value"
  encoder_outs_m :: "'a Value list"
  cached_feature_m :: "'a list list"

subsection \<open>\<^verbatim>\<open>OnnxAsrModel::Reset\<close>\<close>

text \<open>
  The size \<^verbatim>\<open>num_blocks_ * head_ * required_cache_size * encoder_output_size_ / head_ * 2\<close>,
  evaluated from the left, and the last dimension \<^verbatim>\<open>encoder_output_size_ / head_ * 2\<close>.
\<close>

definition att_cache_size :: "'a OnnxAsrModel \<Rightarrow> int \<Rightarrow> error + int" where
  "att_cache_size m required_cache_size =
     and_then (mul32 (num_blocks_m m) (head_m m)) (\<lambda>a.
     and_then (mul32 a required_cache_size) (\<lambda>b.
     and_then (mul32 b (encoder_output_size_m m)) (\<lambda>c.
     and_then (div32 c (head_m m)) (\<lambda>d.
     mul32 d 2))))"

definition att_cache_last_dim :: "'a OnnxAsrModel \<Rightarrow> error + int" where
  "att_cache_last_dim m =
     and_then (div32 (encoder_output_size_m m) (head_m m)) (\<lambda>d. mul32 d 2)"

definition cnn_cache_size :: "'a OnnxAsrModel \<Rightarrow> error + int" where
  "cnn_cache_size m =
     and_then (sub32 (cnn_module_kernel_m m) 1) (\<lambda>k1.
     and_then (mul32 (num_blocks_m m) (encoder_output_size_m m)) (\<lambda>a.
     mul32 a k1))"

definition reset_att_cache :: "('a::zero) OnnxAsrModel \<Rightarrow> error + 'a OnnxAsrModel" where
  "reset_att_cache m =
     (if num_left_chunks_m m > 0
      then and_then (mul32 (chunk_size_m m) (num_left_chunks_m m)) (\<lambda>required_cache_size.
           and_then (att_cache_size m required_cache_size) (\<lambda>n.
           and_then (vector_resize n 0 (att_cache_m m)) (\<lambda>att_cache.
           and_then (att_cache_last_dim m) (\<lambda>d.
           Inr (m\<lparr>offset_m := required_cache_size,
                   att_cache_m := att_cache,
                   att_cache_ort_m :=
                     FloatTensor [num_blocks_m m, head_m m, required_cache_size, d] att_cache\<rparr>)))))
      else and_then (vector_resize 0 0 (att_cache_m m)) (\<lambda>att_cache.
           and_then (att_cache_last_dim m) (\<lambda>d.
           Inr (m\<lparr>att_cache_m := att_cache,
                   att_cache_ort_m := FloatTensor [num_blocks_m m, head_m m, 0, d] att_cache\<rparr>))))"

definition reset_cnn_cache :: "('a::zero) OnnxAsrModel \<Rightarrow> error + 'a OnnxAsrModel" where
  "reset_cnn_cache m =
     and_then (cnn_cache_size m) (\<lambda>n.
     and_then (vector_resize n 0 (cnn_cache_m m)) (\<lambda>cnn_cache.
     Inr (m\<lparr>cnn_cache_m := cnn_cache,
             cnn_cache_ort_m :=
               FloatTensor [num_blocks_m m, 1, encoder_output_size_m m, cnn_module_kernel_m m - 1]
                 cnn_cache\<rparr>)))"

definition OnnxAsrModel_Reset :: "('a::zero) OnnxAsrModel \<Rightarrow> error + 'a OnnxAsrModel" where
  "OnnxAsrModel_Reset m =
     and_then (reset_att_cache (m\<lparr>offset_m := 0, encoder_outs_m := []\<rparr>)) reset_cnn_cache"

subsection \<open>\<^verbatim>\<open>OnnxAsrModel::ForwardEncoderFunc\<close>\<close>

text \<open>
  The two loops that splice frames into \<^verbatim>\<open>feats\<close>: the first \<open>feature_dim\<close>
  elements of every frame, a read past the end of a shorter frame being out of bounds.
\<close>

fun splice :: "nat \<Rightarrow> 'a list list \<Rightarrow> error + 'a list" where
  "splice feature_dim [] = Inr []"
| "splice feature_dim (frame # frames) =
     (if feature_dim \<le> length frame
      then and_then (splice feature_dim frames) (\<lambda>rest. Inr (take feature_dim frame @ rest))
      else Inl Out_of_bounds)"

definition make_feats :: "'a OnnxAsrModel \<Rightarrow> 'a list list \<Rightarrow> error + 'a Value" where
  "make_feats m chunk_feats =
     (case chunk_feats of
        [] \<Rightarrow> Inl Out_of_bounds
      | first # others \<Rightarrow>
          (let num_frames = length (cached_feature_m m) + length chunk_feats;
               feature_dim = length first
           in and_then (splice feature_dim (cached_feature_m m)) (\<lambda>cached.
              and_then (splice feature_dim chunk_feats) (\<lambda>chunk.
              Inr (FloatTensor [1, int num_frames, int feature_dim] (cached @ chunk))))))"

text \<open>The loop \<^verbatim>\<open>for (int i = 0; i < count; ++i) att_mask[i] = 0\<close>.\<close>

definition zero_prefix :: "int \<Rightarrow> 8 word list \<Rightarrow> error + 8 word list" where
  "zero_prefix count att_mask =
     fold (\<lambda>i acc. and_then acc (\<lambda>xs.
             if i < length xs then Inr (xs[i := 0]) else Inl Out_of_bounds))
       [0 ..< nat count] (Inr att_mask)"

text \<open>
  The vector \<^verbatim>\<open>att_mask\<close> and the value \<^verbatim>\<open>att_mask_ort\<close> made from it. The value
  stays null unless \<^verbatim>\<open>num_left_chunks_ > 0\<close>.
\<close>

definition make_att_mask :: "'a OnnxAsrModel \<Rightarrow> error + 'a Value" where
  "make_att_mask m =
     and_then (mul32 (chunk_size_m m) (num_left_chunks_m m)) (\<lambda>required_cache_size.
     and_then (vector_resize (required_cache_size + chunk_size_m m) 1 []) (\<lambda>att_mask.
     if num_left_chunks_m m > 0
     then and_then (div32 (offset_m m) (chunk_size_m m)) (\<lambda>q.
          and_then (sub32 q (num_left_chunks_m m)) (\<lambda>chunk_idx.
          and_then (if chunk_idx < num_left_chunks_m m
                    then and_then (sub32 (num_left_chunks_m m) chunk_idx) (\<lambda>d.
                         and_then (mul32 d (chunk_size_m m)) (\<lambda>count.
                         zero_prefix count att_mask))
                    else Inr att_mask) (\<lambda>att_mask.
          Inr (BoolTensor [1, 1, required_cache_size + chunk_size_m m] att_mask))))
     else Inr Null))"

text \<open>
  The values the encoder's inputs are chosen from, and the loop over the names of the
  graph's inputs. A value is moved into the list: the local it came from is null
  afterwards.
\<close>

record 'a encoder_locals =
  feats_ort :: "'a Value"
  offset_ort :: "'a Value"
  required_cache_size_ort :: "'a Value"
  att_cache_ort :: "'a Value"
  cnn_cache_ort :: "'a Value"
  att_mask_ort :: "'a Value"

definition take_input ::
  "string \<Rightarrow> 'a encoder_locals \<times> 'a Value list \<Rightarrow> 'a encoder_locals \<times> 'a Value list" where
  "take_input name st =
     (case st of (l, inputs) \<Rightarrow>
        if name = ''chunk'' then (l\<lparr>feats_ort := Null\<rparr>, inputs @ [feats_ort l])
        else if name = ''offset'' then (l\<lparr>offset_ort := Null\<rparr>, inputs @ [offset_ort l])
        else if name = ''required_cache_size''
        then (l\<lparr>required_cache_size_ort := Null\<rparr>, inputs @ [required_cache_size_ort l])
        else if name = ''att_cache'' then (l\<lparr>att_cache_ort := Null\<rparr>, inputs @ [att_cache_ort l])
        else if name = ''cnn_cache'' then (l\<lparr>cnn_cache_ort := Null\<rparr>, inputs @ [cnn_cache_ort l])
        else if name = ''att_mask'' then (l\<lparr>att_mask_ort := Null\<rparr>, inputs @ [att_mask_ort l])
        else (l, inputs))"

definition encoder_locals_of :: "'a OnnxAsrModel \<Rightarrow> 'a list list \<Rightarrow> error + 'a encoder_locals" where
  "encoder_locals_of m chunk_feats =
     and_then (make_feats m chunk_feats) (\<lambda>feats.
     and_then (mul32 (chunk_size_m m) (num_left_chunks_m m)) (\<lambda>required_cache_size.
     and_then (make_att_mask m) (\<lambda>att_mask.
     Inr \<lparr> feats_ort = feats,
           offset_ort = Int64Tensor [] [offset_m m],
           required_cache_size_ort = Int64Tensor [] [required_cache_size],
           att_cache_ort = att_cache_ort_m m,
           cnn_cache_ort = cnn_cache_ort_m m,
           att_mask_ort = att_mask \<rparr>)))"

definition encoder_inputs :: "'a OnnxAsrModel \<Rightarrow> 'a list list \<Rightarrow> error + 'a Value list" where
  "encoder_inputs m chunk_feats =
     and_then (encoder_locals_of m chunk_feats) (\<lambda>l.
     Inr (snd (fold take_input (encoder_in_names_m m) (l, []))))"





text \<open>
  The rows of \<^verbatim>\<open>out_prob\<close>. The vector is first sized to \<open>num_outputs\<close> rows; then
  each row is sized to \<open>output_dim\<close> and filled with the \<open>output_dim\<close> elements from
  \<open>i * output_dim\<close> on. With no row, \<open>output_dim\<close> is never used.
\<close>

definition copy_rows :: "int \<Rightarrow> int \<Rightarrow> 'a list \<Rightarrow> error + 'a list list" where
  "copy_rows num_outputs output_dim logp_data =
     (if num_outputs < 0 then Inl Length_error
      else if num_outputs = 0 then Inr []
      else if output_dim < 0 then Inl Length_error
      else if int (length logp_data) < num_outputs * output_dim then Inl Out_of_bounds
      else Inr (map (\<lambda>i. take (nat output_dim) (drop (i * nat output_dim) logp_data))
                  [0 ..< nat num_outputs]))"

definition ForwardEncoderFunc ::
  "'a sessions \<Rightarrow> 'a OnnxAsrModel \<Rightarrow> 'a list list \<Rightarrow> error + 'a OnnxAsrModel \<times> 'a list list" where
  "ForwardEncoderFunc S m chunk_feats =
     and_then (encoder_inputs m chunk_feats) (\<lambda>inputs.
     and_then (encoder_session_Run S inputs) (\<lambda>ort_outputs.
     if length ort_outputs < 3 then Inl Out_of_bounds
     else and_then (GetShape (ort_outputs ! 0)) (\<lambda>shape.
          and_then (at_index shape 1) (\<lambda>time_dim.
          and_then (add32 (offset_m m) (to_int32 time_dim)) (\<lambda>offset.
          and_then (ctc_session_Run S [ort_outputs ! 0]) (\<lambda>ctc_ort_outputs.
          and_then (at_index ctc_ort_outputs 0) (\<lambda>logp.
          and_then (GetTensorData logp) (\<lambda>logp_data.
          and_then (GetShape logp) (\<lambda>logp_shape.
          and_then (at_index logp_shape 1) (\<lambda>num_outputs.
          and_then (at_index logp_shape 2) (\<lambda>output_dim.
          and_then (copy_rows (to_int32 num_outputs) (to_int32 output_dim) logp_data) (\<lambda>out_prob.
          Inr (m\<lparr>offset_m := offset,
                  att_cache_ort_m := ort_outputs ! 1,
                  cnn_cache_ort_m := ort_outputs ! 2,
                  encoder_outs_m := encoder_outs_m m @ [ort_outputs ! 0]\<rparr>,
               out_prob)))))))))))))"

text \<open>A stream: \<^verbatim>\<open>ForwardEncoderFunc\<close> on one chunk after the other, no reset between.\<close>

fun forward_chunks ::
  "'a sessions \<Rightarrow> 'a OnnxAsrModel \<Rightarrow> 'a list list list \<Rightarrow> error + 'a OnnxAsrModel" where
  "forward_chunks S m [] = Inr m"
| "forward_chunks S m (chunk_feats # chunks) =
     and_then (ForwardEncoderFunc S m chunk_feats) (\<lambda>r. forward_chunks S (fst r) chunks)"

subsection \<open>\<^verbatim>\<open>OnnxAsrModel::ComputeAttentionScore\<close> and \<^verbatim>\<open>AttentionRescoring\<close>\<close>

text \<open>
  \<^verbatim>\<open>prob\<close> is a pointer into a buffer: the buffer \<open>buf\<close> and the position \<open>base\<close>.
  The loop adds \<^verbatim>\<open>*(prob + j * decode_out_len + hyp[j])\<close> for \<open>j\<close> from 0.
\<close>

fun score_loop ::
  "('a::plus) list \<Rightarrow> int \<Rightarrow> int \<Rightarrow> nat \<Rightarrow> int list \<Rightarrow> 'a \<Rightarrow> error + 'a" where
  "score_loop buf base decode_out_len j [] score = Inr score"
| "score_loop buf base decode_out_len j (h # hs) score =
     and_then (at_index buf (base + int j * decode_out_len + h)) (\<lambda>p.
     score_loop buf base decode_out_len (Suc j) hs (score + p))"

definition ComputeAttentionScore ::
  "('a::{plus,zero}) list \<Rightarrow> int \<Rightarrow> int list \<Rightarrow> int \<Rightarrow> int \<Rightarrow> error + 'a" where
  "ComputeAttentionScore buf base hyp eos decode_out_len =
     and_then (score_loop buf base decode_out_len 0 hyp 0) (\<lambda>score.
     and_then (at_index buf (base + int (length hyp) * decode_out_len + eos)) (\<lambda>p.
     Inr (score + p)))"

text \<open>
  The first loops of \<^verbatim>\<open>AttentionRescoring\<close>: the lengths, the longest length, the
  encoder outputs copied into one buffer (\<^verbatim>\<open>GetElementCount\<close> elements of each),
  the padded hypotheses, and the three inputs of the decoder graph.
\<close>

definition max_hyps_len_of :: "int list list \<Rightarrow> int" where
  "max_hyps_len_of hyps = fold (\<lambda>hyp acc. max (int (length hyp) + 1) acc) hyps 0"

fun gather_encoder_outs :: "'a Value list \<Rightarrow> 'a list \<Rightarrow> int \<Rightarrow> error + 'a list \<times> int" where
  "gather_encoder_outs [] rescore_input encoder_len = Inr (rescore_input, encoder_len)"
| "gather_encoder_outs (v # vs) rescore_input encoder_len =
     and_then (GetTensorData v) (\<lambda>buf.
     and_then (GetShape v) (\<lambda>shape.
     if int (length buf) < prod_list shape then Inl Out_of_bounds
     else and_then (at_index shape 1) (\<lambda>t.
          gather_encoder_outs vs (rescore_input @ take (nat (prod_list shape)) buf)
            (to_int32 (encoder_len + t)))))"

definition pad_hyp :: "int \<Rightarrow> int \<Rightarrow> int list \<Rightarrow> int list" where
  "pad_hyp sos max_hyps_len hyp = sos # hyp @ replicate (nat (max_hyps_len - 1) - length hyp) 0"

definition rescore_inputs :: "'a OnnxAsrModel \<Rightarrow> int list list \<Rightarrow> error + 'a Value list" where
  "rescore_inputs m hyps =
     (let num_hyps = int (length hyps);
          hyps_lens = map (\<lambda>hyp. int (length hyp) + 1) hyps;
          max_hyps_len = max_hyps_len_of hyps
      in and_then (gather_encoder_outs (encoder_outs_m m) [] 0) (\<lambda>r.
         Inr [Int64Tensor [num_hyps, max_hyps_len] (concat (map (pad_hyp (sos_m m) max_hyps_len) hyps)),
              Int64Tensor [num_hyps] hyps_lens,
              FloatTensor [1, snd r, encoder_output_size_m m] (fst r)]))"

text \<open>The body of the last loop: the score of hypothesis \<open>i\<close>.\<close>

definition hyp_score ::
  "('a::{plus,minus,times,zero,one,ord}) OnnxAsrModel \<Rightarrow> 'a \<Rightarrow> 'a list \<Rightarrow> 'a list \<Rightarrow> int \<Rightarrow> int
     \<Rightarrow> nat \<Rightarrow> int list \<Rightarrow> error + 'a" where
  "hyp_score m reverse_weight decoder_outs_data r_decoder_outs_data max_hyps_len decode_out_len i hyp =
     and_then (mul32 max_hyps_len decode_out_len) (\<lambda>stride.
     and_then (ComputeAttentionScore decoder_outs_data (stride * int i) hyp (eos_m m)
                 decode_out_len) (\<lambda>score.
     and_then (if is_bidirectional_decoder_m m \<and> reverse_weight > 0
               then ComputeAttentionScore r_decoder_outs_data (stride * int i) (rev hyp) (eos_m m)
                      decode_out_len
               else Inr 0) (\<lambda>r_score.
     Inr (score * (1 - reverse_weight) + r_score * reverse_weight))))"

fun rescoring_loop ::
  "(nat \<Rightarrow> int list \<Rightarrow> error + 'a) \<Rightarrow> nat \<Rightarrow> int list list \<Rightarrow> 'a list \<Rightarrow> error + 'a list" where
  "rescoring_loop f i [] rescoring_score = Inr rescoring_score"
| "rescoring_loop f i (hyp # hyps) rescoring_score =
     and_then (f i hyp) (\<lambda>v.
     if i < length rescoring_score
     then rescoring_loop f (Suc i) hyps (rescoring_score[i := v])
     else Inl Out_of_bounds)"

text \<open>
  \<^verbatim>\<open>AttentionRescoring(hyps, reverse_weight, rescoring_score)\<close>. The third argument
  is the vector behind the caller's pointer. The result is that vector afterwards, and
  the inputs of every run of the decoder graph that was made.
\<close>

definition AttentionRescoring ::
  "('a::{plus,minus,times,zero,one,ord}) sessions \<Rightarrow> 'a OnnxAsrModel \<Rightarrow> int list list \<Rightarrow> 'a
     \<Rightarrow> 'a list \<Rightarrow> error + 'a list \<times> 'a Value list list" where
  "AttentionRescoring S m hyps reverse_weight rescoring_score0 =
     (let num_hyps = length hyps;
          rescoring_score = resize num_hyps 0 rescoring_score0
      in if num_hyps = 0 then Inr (rescoring_score, [])
         else if length (encoder_outs_m m) = 0 then Inr (rescoring_score, [])
         else and_then (rescore_inputs m hyps) (\<lambda>rescore_inputs.
              and_then (rescore_session_Run S rescore_inputs) (\<lambda>rescore_outputs.
              and_then (at_index rescore_outputs 0) (\<lambda>out0.
              and_then (GetTensorData out0) (\<lambda>decoder_outs_data.
              and_then (at_index rescore_outputs 1) (\<lambda>out1.
              and_then (GetTensorData out1) (\<lambda>r_decoder_outs_data.
              and_then (GetShape out0) (\<lambda>shape.
              and_then (at_index shape 2) (\<lambda>d.
              and_then (rescoring_loop
                          (hyp_score m reverse_weight decoder_outs_data r_decoder_outs_data
                             (max_hyps_len_of hyps) (to_int32 d))
                          0 hyps rescoring_score) (\<lambda>scores.
              Inr (scores, [rescore_inputs])))))))))))"

subsection \<open>The score as the specification words it\<close>

text \<open>
  The decoder's output seen as \<open>probs[i][t][v]\<close>, and its buffer: the rows one after
  the other.
\<close>

definition flat3 :: "'a list list list \<Rightarrow> 'a list" where
  "flat3 probs = concat (map concat probs)"

definition cube :: "nat \<Rightarrow> nat \<Rightarrow> nat \<Rightarrow> 'a list list list \<Rightarrow> bool" where
  "cube n l v probs \<longleftrightarrow>
     length probs = n \<and> list_all (\<lambda>rows. length rows = l \<and> list_all (\<lambda>row. length row = v) rows) probs"

text \<open>
  The sum of \<open>probs[t, hyp[t]]\<close> for \<open>t = 0..len-1\<close>, plus \<open>probs[len, eos]\<close>; the terms
  are added from the left, starting from 0.
\<close>

definition spec_score :: "('a::{plus,zero}) list list \<Rightarrow> int list \<Rightarrow> int \<Rightarrow> 'a" where
  "spec_score probs hyp eos =
     foldl (+) 0 (map (\<lambda>t. probs ! t ! nat (hyp ! t)) [0 ..< length hyp])
       + probs ! length hyp ! nat eos"

text \<open>
  The combined score in the specification's words: \<open>r_score\<close> is the score of the
  reversed hypothesis under the right-to-left probabilities, and 0 when the model is
  unidirectional or \<open>reverse_weight = 0\<close>.
\<close>

definition spec_rescore ::
  "bool \<Rightarrow> int \<Rightarrow> ('a::{plus,minus,times,zero,one,ord}) \<Rightarrow> 'a list list \<Rightarrow> 'a list list
     \<Rightarrow> int list \<Rightarrow> 'a" where
  "spec_rescore bidirectional eos reverse_weight left_probs right_probs hyp =
     spec_score left_probs hyp eos * (1 - reverse_weight)
       + (if \<not> bidirectional \<or> reverse_weight = 0 then 0
          else spec_score right_probs (rev hyp) eos) * reverse_weight"

text \<open>
  The same with the condition of the source: \<open>r_score\<close> is the score of the reversed
  hypothesis when the model is bidirectional and \<open>reverse_weight > 0\<close>, and 0 otherwise.
\<close>

definition rescore_formula ::
  "bool \<Rightarrow> int \<Rightarrow> ('a::{plus,minus,times,zero,one,ord}) \<Rightarrow> 'a list list \<Rightarrow> 'a list list
     \<Rightarrow> int list \<Rightarrow> 'a" where
  "rescore_formula bidirectional eos reverse_weight left_probs right_probs hyp =
     spec_score left_probs hyp eos * (1 - reverse_weight)
       + (if bidirectional \<and> reverse_weight > 0 then spec_score right_probs (rev hyp) eos
          else 0) * reverse_weight"

subsection \<open>The time dimension of an encoder output\<close>

text \<open>
  \<^verbatim>\<open>GetShape()[1]\<close> of a value, and the outputs whose time dimension is a count that
  fits an \<^verbatim>\<open>int\<close>.
\<close>

definition time_dim :: "'a Value \<Rightarrow> int" where
  "time_dim v = (case and_then (GetShape v) (\<lambda>shape. at_index shape 1) of Inl e \<Rightarrow> 0 | Inr t \<Rightarrow> t)"

definition time_dims_ok :: "'a Value list \<Rightarrow> bool" where
  "time_dims_ok vs = list_all (\<lambda>v. 0 \<le> time_dim v \<and> time_dim v < 2 ^ 31) vs"

subsection \<open>Metadata that \<^verbatim>\<open>Reset\<close> can work with\<close>

text \<open>
  The metadata of a model whose sizes are not negative, whose head count is positive,
  and whose products as \<^verbatim>\<open>Reset\<close> forms them fit an \<^verbatim>\<open>int\<close>.
\<close>

definition metadata_ok :: "'a OnnxAsrModel \<Rightarrow> bool" where
  "metadata_ok m \<longleftrightarrow>
     (let nb = num_blocks_m m; hd = head_m m; enc = encoder_output_size_m m;
          k1 = cnn_module_kernel_m m - 1;
          req = (if num_left_chunks_m m > 0 then chunk_size_m m * num_left_chunks_m m else 0)
      in 0 \<le> nb \<and> 0 < hd \<and> 0 \<le> enc \<and> 0 \<le> req \<and> 0 \<le> k1
         \<and> int32 hd \<and> int32 enc \<and> int32 k1 \<and> int32 req
         \<and> int32 (nb * hd) \<and> int32 (nb * hd * req) \<and> int32 (nb * hd * req * enc)
         \<and> int32 (nb * hd * req * enc sdiv hd * 2)
         \<and> int32 (enc sdiv hd * 2) \<and> int32 (nb * enc) \<and> int32 (nb * enc * k1))"

subsection \<open>A small model and small sessions\<close>

text \<open>
  An instance over the reals for evaluating the definitions: one block, two heads,
  chunks of two frames, two left chunks, a vocabulary of three tokens of which 2 is
  both \<^verbatim>\<open>sos\<close> and \<^verbatim>\<open>eos\<close>.
\<close>

definition toy_model :: "real OnnxAsrModel" where
  "toy_model =
     \<lparr> encoder_output_size_m = 4, num_blocks_m = 1, head_m = 2, cnn_module_kernel_m = 3,
       sos_m = 2, eos_m = 2, is_bidirectional_decoder_m = True,
       chunk_size_m = 2, num_left_chunks_m = 2, offset_m = 0,
       encoder_in_names_m = [''chunk'', ''offset'', ''required_cache_size'', ''att_cache'',
                             ''cnn_cache'', ''att_mask''],
       att_cache_m = [], cnn_cache_m = [], att_cache_ort_m = Null, cnn_cache_ort_m = Null,
       encoder_outs_m = [], cached_feature_m = [] \<rparr>"

definition toy_left_probs :: "real list list list" where
  "toy_left_probs = [[[1, 2, 3], [4, 5, 6], [7, 8, 9]], [[10, 20, 30], [40, 50, 60], [70, 80, 90]]]"

definition toy_right_probs :: "real list list list" where
  "toy_right_probs = [[[2, 4, 6], [8, 10, 12], [14, 16, 18]], [[1, 3, 5], [7, 9, 11], [13, 15, 17]]]"

definition toy_sessions :: "real sessions" where
  "toy_sessions =
     \<lparr> encoder_session_Run = (\<lambda>inputs.
         Inr [FloatTensor [1, 2, 4] (replicate 8 1), FloatTensor [1, 2, 4, 4] (replicate 32 2),
              FloatTensor [1, 1, 4, 2] (replicate 8 3)]),
       ctc_session_Run = (\<lambda>inputs. Inr [FloatTensor [1, 2, 3] [1, 2, 3, 4, 5, 6]]),
       rescore_session_Run = (\<lambda>inputs.
         Inr [FloatTensor [2, 3, 3] (flat3 toy_left_probs),
              FloatTensor [2, 3, 3] (flat3 toy_right_probs)]) \<rparr>"

text \<open>The small model after a stream that left a frame in \<^verbatim>\<open>cached_feature_\<close>.\<close>

definition toy_model_used :: "real OnnxAsrModel" where
  "toy_model_used =
     toy_model\<lparr>offset_m := 6, encoder_outs_m := [FloatTensor [1, 2, 4] (replicate 8 1)],
               cached_feature_m := [[7, 8]]\<rparr>"

text \<open>The small model after a reset, and with no limit on the left context.\<close>

definition toy_model_reset :: "real OnnxAsrModel" where
  "toy_model_reset = toy_model\<lparr>offset_m := 4,
              att_cache_m := replicate 32 0, cnn_cache_m := replicate 8 0,
              att_cache_ort_m := FloatTensor [1, 2, 4, 4] (replicate 32 0),
              cnn_cache_ort_m := FloatTensor [1, 1, 4, 2] (replicate 8 0)\<rparr>"


text \<open>The small model after a reset and one chunk.\<close>

definition toy_model_streamed :: "real OnnxAsrModel" where
  "toy_model_streamed = toy_model_reset\<lparr>offset_m := 6,
              att_cache_ort_m := FloatTensor [1, 2, 4, 4] (replicate 32 2),
              cnn_cache_ort_m := FloatTensor [1, 1, 4, 2] (replicate 8 3),
              encoder_outs_m := [FloatTensor [1, 2, 4] (replicate 8 1)]\<rparr>"

section \<open>Properties of the recognizer\<close>

lemma odd_smod2: "(len::int) smod 2 \<noteq> 0 \<longleftrightarrow> odd len"
  unfolding signed_modulo_int_def by (cases "len < 0") (simp_all add: sgn_if, presburger+)

lemma and_then_Inr: "and_then a f = Inr y \<Longrightarrow> \<exists>x. a = Inr x \<and> f x = Inr y"
  by (cases a) auto

lemma same_config_fields:
  "same_config r (r\<lparr>feature_pipeline_m := p, decoder_m := d\<rparr>)"
  by (simp add: same_config_def)

lemma same_config_trans: "same_config a b \<Longrightarrow> same_config b c \<Longrightarrow> same_config a c"
  by (simp add: same_config_def)

lemma UpdateResult_same:
  "UpdateResult X b r = Inr r' \<Longrightarrow> same_config r r' \<and> decoder_m r' \<noteq> None"
  by (auto simp: UpdateResult_def same_config_def split: option.splits)

lemma UpdateResult_written:
  "UpdateResult X b r = Inr r' \<Longrightarrow>
     written_with X (nbest_m r) (enable_timestamp_m r) old (result_m r')"
proof -
  assume u: "UpdateResult X b r = Inr r'"
  then obtain d where "decoder_m r = Some d"
    by (cases "decoder_m r") (auto simp: UpdateResult_def)
  with u have "result_m r' = json_dump X
      (result_doc b (nbest_m r) (enable_timestamp_m r) (AsrDecoder_result X d))"
    by (auto simp: UpdateResult_def)
  then show ?thesis unfolding written_with_def by blast
qed

lemma Rescoring_same:
  "Rescoring X r = Inr r' \<Longrightarrow>
     same_config r r' \<and> decoder_m r' \<noteq> None \<and> result_m r' = result_m r"
  by (auto simp: Rescoring_def same_config_def split: option.splits prod.splits)

lemma written_with_config:
  "same_config r r2 \<Longrightarrow>
     written_with X (nbest_m r2) (enable_timestamp_m r2) old new \<Longrightarrow>
     written_with X (nbest_m r) (enable_timestamp_m r) old new"
  by (simp add: same_config_def)

lemma written_with_after:
  "written_with X n ts old mid \<Longrightarrow> written_with X n ts mid new \<Longrightarrow> written_with X n ts old new"
  by (auto simp: written_with_def)

lemma decode_loop_keeps_aux:
  assumes "decode_loop X r = Some y"
  shows "loop_post X r y"
proof (rule decode_loop.raw_induct[where P = loop_post, OF _ assms])
  fix loop :: "('a, 'b, 'c) externals \<Rightarrow> ('a, 'b, 'c) Recognizer
      \<Rightarrow> (error + ('a, 'b, 'c) Recognizer) option"
  fix X r y
  assume IH: "\<And>X r y. loop X r = Some y \<Longrightarrow> loop_post X r y"
  assume eq: "(case decoder_m r of
        None \<Rightarrow> Some (Inl Null_deref)
      | Some d \<Rightarrow>
          (case AsrDecoder_Decode X (feature_pipeline_m r, d) of
             (state, p1, d1) \<Rightarrow>
               (if state = kWaitFeats
                then Some (Inr (r\<lparr>feature_pipeline_m := p1, decoder_m := Some d1\<rparr>))
                else if state = kEndFeats
                then Some (and_then (and_then
                        (UpdateResult X True (r\<lparr>feature_pipeline_m := p1, decoder_m := Some d1\<rparr>))
                        (Rescoring X)) (UpdateResult X True))
                else (case UpdateResult X False (r\<lparr>feature_pipeline_m := p1, decoder_m := Some d1\<rparr>) of
                        Inl e \<Rightarrow> Some (Inl e)
                      | Inr r2 \<Rightarrow> loop X r2)))) = Some y"
  show "loop_post X r y"
  proof (cases y)
    case (Inl e)
    then show ?thesis by (simp add: loop_post_def)
  next
    case (Inr r')
    note y = Inr
    from eq obtain d where d: "decoder_m r = Some d"
      using y by (cases "decoder_m r") auto
    obtain state p1 d1 where dec: "AsrDecoder_Decode X (feature_pipeline_m r, d) = (state, p1, d1)"
      by (cases "AsrDecoder_Decode X (feature_pipeline_m r, d)") auto
    let ?r1 = "r\<lparr>feature_pipeline_m := p1, decoder_m := Some d1\<rparr>"
    let ?W = "written_with X (nbest_m r) (enable_timestamp_m r)"
    have r1: "same_config r ?r1" by (rule same_config_fields)
    consider (wait) "state = kWaitFeats" | (fin) "state = kEndFeats"
      | (other) "state \<noteq> kWaitFeats" "state \<noteq> kEndFeats" by blast
    then have "decoder_m r' \<noteq> None \<and> same_config r r' \<and> ?W (result_m r) (result_m r')"
    proof cases
      case wait
      with eq d dec y have "r' = ?r1" by simp
      then show ?thesis using r1 by (simp add: written_with_def)
    next
      case fin
      with eq d dec y have
        "and_then (and_then (UpdateResult X True ?r1) (Rescoring X)) (UpdateResult X True) = Inr r'"
        by simp
      from and_then_Inr[OF this] obtain b
        where ab: "and_then (UpdateResult X True ?r1) (Rescoring X) = Inr b"
        and c: "UpdateResult X True b = Inr r'"
        by blast
      from and_then_Inr[OF ab] obtain a
        where a: "UpdateResult X True ?r1 = Inr a" and b: "Rescoring X a = Inr b"
        by blast
      have ra: "same_config r a"
        by (rule same_config_trans[OF r1 UpdateResult_same[OF a, THEN conjunct1]])
      have rb: "same_config r b"
        by (rule same_config_trans[OF ra Rescoring_same[OF b, THEN conjunct1]])
      have "same_config r r'"
        by (rule same_config_trans[OF rb UpdateResult_same[OF c, THEN conjunct1]])
      moreover have "decoder_m r' \<noteq> None" using UpdateResult_same[OF c] by simp
      moreover have "?W (result_m r) (result_m r')"
        using written_with_config[OF rb UpdateResult_written[OF c]] .
      ultimately show ?thesis by simp
    next
      case other
      with eq d dec y obtain r2 where u: "UpdateResult X False ?r1 = Inr r2"
        and l: "loop X r2 = Some (Inr r')"
        by (cases "UpdateResult X False ?r1") auto
      from IH[OF l] have ih: "decoder_m r' \<noteq> None" "same_config r2 r'"
        "written_with X (nbest_m r2) (enable_timestamp_m r2) (result_m r2) (result_m r')"
        by (simp_all add: loop_post_def)
      have r2: "same_config r r2"
        by (rule same_config_trans[OF r1 UpdateResult_same[OF u, THEN conjunct1]])
      have w1: "?W (result_m r) (result_m r2)"
        using written_with_config[OF r1 UpdateResult_written[OF u]] by simp
      have w2: "?W (result_m r2) (result_m r')"
        using written_with_config[OF r2 ih(3)] .
      show ?thesis
        using ih(1) same_config_trans[OF r2 ih(2)] written_with_after[OF w1 w2] by simp
    qed
    then show ?thesis using y by (simp add: loop_post_def)
  qed
qed

lemma decode_loop_keeps:
  "decode_loop X r = Some (Inr r') \<Longrightarrow>
     decoder_m r' \<noteq> None \<and> same_config r r'
     \<and> written_with X (nbest_m r) (enable_timestamp_m r) (result_m r) (result_m r')"
  using decode_loop_keeps_aux[of X r "Inr r'"] by (simp add: loop_post_def)

lemma Decode_returns:
  assumes "Decode X r bytes len is_last = Some (Inr r')"
  shows "decode_loop X ((init_decoder X r)\<lparr>feature_pipeline_m :=
            (if is_last > 0 then set_input_finished X else id)
              (AcceptWaveform X (map (pcm_sample bytes) [0 ..< nat (len sdiv 2)])
                 (feature_pipeline_m (init_decoder X r)))\<rparr>) = Some (Inr r')"
  using assms by (auto simp: Decode_def Let_def split: if_splits)

lemma Decode_keeps:
  assumes "Decode X r bytes len is_last = Some (Inr r')"
  shows "decoder_m r' \<noteq> None" and "same_config (init_decoder X r) r'"
    and "written_with X (nbest_m r) (enable_timestamp_m r) (result_m r) (result_m r')"
proof -
  let ?r1 = "init_decoder X r"
  note k = decode_loop_keeps[OF Decode_returns[OF assms]]
  have i: "nbest_m ?r1 = nbest_m r" "enable_timestamp_m ?r1 = enable_timestamp_m r"
    "result_m ?r1 = result_m r"
    by (simp_all add: init_decoder_def Let_def)
  show "decoder_m r' \<noteq> None" using k by simp
  show "same_config ?r1 r'" using k by (simp add: same_config_def)
  show "written_with X (nbest_m r) (enable_timestamp_m r) (result_m r) (result_m r')"
    using k i by simp
qed




lemma run_unbuilt:
  "decoder_m r = None \<Longrightarrow> \<forall>c\<in>set cs. \<not> is_decode c \<Longrightarrow> run X cs r = Some (Inr r') \<Longrightarrow>
     decoder_m r' = None"
proof (induction cs arbitrary: r)
  case Nil
  then show ?case by simp
next
  case (Cons c cs)
  from Cons.prems(3) obtain r1 where c: "do_call X c r = Some (Inr r1)"
    and rest: "run X cs r1 = Some (Inr r')"
    by (auto split: option.splits sum.splits)
  have "decoder_m r1 = None"
    using c Cons.prems(1,2)
    by (cases c) (auto simp: Reset_def Let_def set_nbest_def set_enable_timestamp_def
        AddContext_def set_context_score_def)
  from Cons.IH[OF this _ rest] Cons.prems(2) show ?case by simp
qed

subsection \<open>The claims about the recognizer\<close>

text \<open>
  C8. In every document that \<^verbatim>\<open>UpdateResult\<close> serializes, an entry of the
  \<open>nbest\<close> array has the field \<open>word_pieces\<close> if and only if timestamps are enabled and
  the field \<open>type\<close> of the document is \<open>final_result\<close>; a partial result carries none.
\<close>

theorem word_pieces_iff_final_and_timestamps:
  assumes "UpdateResult X final_result r = Inr r'"
  shows "\<exists>d. decoder_m r = Some d
           \<and> result_m r' = json_dump X
                (result_doc final_result (nbest_m r) (enable_timestamp_m r) (AsrDecoder_result X d))
           \<and> (\<forall>one \<in> set (json_elements (json_member ''nbest''
                  (result_doc final_result (nbest_m r) (enable_timestamp_m r)
                     (AsrDecoder_result X d)))).
                 (json_member ''word_pieces'' one \<noteq> None) =
                 (enable_timestamp_m r
                  \<and> json_member ''type''
                       (result_doc final_result (nbest_m r) (enable_timestamp_m r)
                          (AsrDecoder_result X d)) = Some (JString ''final_result'')))"
proof -
  from assms obtain d where d: "decoder_m r = Some d"
    by (cases "decoder_m r") (auto simp: UpdateResult_def)
  with assms have res: "result_m r' = json_dump X
      (result_doc final_result (nbest_m r) (enable_timestamp_m r) (AsrDecoder_result X d))"
    by (auto simp: UpdateResult_def)
  have ty: "json_member ''type'' (result_doc fin n ts rs)
      = Some (JString (if fin then ''final_result'' else ''partial_result''))" for fin n ts rs
    by (simp add: result_doc_def)
  have el: "json_elements (json_member ''nbest'' (result_doc fin n ts rs))
      = map (one_json fin ts) (take (nat (if fin then n else 1)) rs)" for fin n ts rs
    by (simp add: result_doc_def)
  have one: "(json_member ''word_pieces'' (one_json fin ts x) \<noteq> None) = (fin \<and> ts)"
    for fin ts x
    by (simp add: one_json_def Let_def)
  have none: "(json_member ''word_pieces'' (one_json fin ts x) = None) = (\<not> (fin \<and> ts))"
    for fin ts x
    by (simp add: one_json_def Let_def)
  show ?thesis
    using d res by (cases final_result) (simp_all add: ty el one none del: not_None_eq)
qed

theorem word_pieces_witness:
  "UpdateResult toy True r_timed = Inr (r_timed\<lparr>result_m :=
      ''{type:final_result;nbest:[{sentence:hi;word_pieces:[{word:hi;start:#;end:#;}];}{sentence:hi;word_pieces:[{word:hi;start:#;end:#;}];}];}''\<rparr>)
   \<and> json_member ''word_pieces'' (one_json True True (hd (toy_results (None, 0)))) \<noteq> None
   \<and> json_member ''word_pieces'' (one_json False True (hd (toy_results (None, 0)))) = None"
proof -
  have h: "UpdateResult toy True r_timed = Inr (r_timed\<lparr>result_m :=
      ''{type:final_result;nbest:[{sentence:hi;word_pieces:[{word:hi;start:#;end:#;}];}{sentence:hi;word_pieces:[{word:hi;start:#;end:#;}];}];}''\<rparr>)"
    by code_simp
  have "json_member ''word_pieces'' (one_json True True (hd (toy_results (None, 0)))) \<noteq> None"
    and "json_member ''word_pieces'' (one_json False True (hd (toy_results (None, 0)))) = None"
    by (simp_all add: one_json_def toy_results_def Let_def)
  then show ?thesis
    using h word_pieces_iff_final_and_timestamps[OF h] by simp
qed

text \<open>
  C2, as the code has it. A \<^verbatim>\<open>Decode\<close> whose \<open>len\<close> is odd stops at
  \<^verbatim>\<open>CHECK_EQ(len % 2, 0)\<close>: the process aborts, whatever the recognizer's state, and
  no call that the host had planned after it (a reset, another decode) is made.
\<close>

theorem Decode_odd_length_aborts:
  assumes "odd len"
  shows "Decode X r bytes len is_last = Some (Inl Check_failed)
         \<and> run X (wenet_decode bytes len is_last # cs) r = Some (Inl Check_failed)"
  using assms by (simp add: Decode_def Let_def odd_smod2)

theorem Decode_odd_length_witness:
  "odd (3::int) \<and> Decode toy r_new [1, 2, 3] 3 0 = Some (Inl Check_failed)
   \<and> run toy [wenet_decode [1, 2, 3] 3 0, wenet_reset, wenet_decode [1, 2] 2 1] r_new
       = Some (Inl Check_failed)"
proof -
  have h: "odd (3::int)" by simp
  show ?thesis
    using h Decode_odd_length_aborts[OF h, of toy r_new "[1, 2, 3]" 0
        "[wenet_reset, wenet_decode [1, 2] 2 1]"]
    by simp
qed

text \<open>
  The claim C2 as the specification states it fails: after two samples have been
  decoded, an odd buffer does not leave a recognizer that a reset makes usable again.
  The run ends at the failed check; the reset and the even decode after it are never
  made. The same run without the odd call returns.
\<close>

theorem Decode_odd_length_not_recoverable:
  "run toy [wenet_decode [1, 2, 3, 4] 4 0, wenet_decode [1, 2, 3] 3 0, wenet_reset,
            wenet_decode [1, 2] 2 1] r_new = Some (Inl Check_failed)
   \<and> run toy [wenet_decode [1, 2, 3, 4] 4 0, wenet_reset, wenet_decode [1, 2] 2 1] r_new
       = Some (Inr \<lparr> feature_pipeline_m = (0, True), resource_context_graph = None,
            decoder_m = Some (None, 0), nbest_m = 1,
            result_m = ''{type:final_result;nbest:[{sentence:hi;}];}'',
            enable_timestamp_m = False, context_m = [], context_score_m = None \<rparr>)"
  by code_simp

text \<open>
  C10. \<^verbatim>\<open>Reset\<close> calls \<^verbatim>\<open>decoder_->Reset()\<close> without a test, and only \<^verbatim>\<open>Decode\<close>
  builds the decoder. On a new recognizer, and after any calls none of which is a
  decode, a reset dereferences the null pointer; that is the only way a reset fails;
  after a decode that returned, a reset returns.
\<close>

theorem Reset_requires_a_decode:
  "Reset X (new_Recognizer p0) = Inl Null_deref
   \<and> ((\<forall>c \<in> set cs. \<not> is_decode c) \<longrightarrow> run X cs (new_Recognizer p0) = Some (Inr r)
        \<longrightarrow> Reset X r = Inl Null_deref)
   \<and> (Reset X r1 = Inl e \<longleftrightarrow> e = Null_deref \<and> decoder_m r1 = None)
   \<and> (Decode X r2 bytes len is_last = Some (Inr r3) \<longrightarrow> (\<exists>r4. Reset X r3 = Inr r4))"
proof (intro conjI impI)
  show "Reset X (new_Recognizer p0) = Inl Null_deref"
    by (simp add: Reset_def new_Recognizer_def)
  show "Reset X r = Inl Null_deref"
    if "\<forall>c \<in> set cs. \<not> is_decode c" and "run X cs (new_Recognizer p0) = Some (Inr r)"
  proof -
    have "decoder_m (new_Recognizer p0 :: ('a, 'b, 'c) Recognizer) = None"
      by (simp add: new_Recognizer_def)
    from run_unbuilt[OF this that] show ?thesis
      by (simp add: Reset_def)
  qed
  show "Reset X r1 = Inl e \<longleftrightarrow> e = Null_deref \<and> decoder_m r1 = None"
    by (cases "decoder_m r1") (auto simp: Reset_def Let_def split: prod.splits)
  show "\<exists>r4. Reset X r3 = Inr r4" if "Decode X r2 bytes len is_last = Some (Inr r3)"
    using Decode_keeps(1)[OF that]
    by (cases "decoder_m r3") (auto simp: Reset_def Let_def split: prod.splits)
qed

theorem Reset_requires_a_decode_witness:
  "\<not> is_decode (wenet_set_nbest 3) \<and> \<not> is_decode (wenet_add_context ''A'')
   \<and> run toy [wenet_set_nbest 3, wenet_add_context ''A''] r_new
       = Some (Inr (r_new\<lparr>nbest_m := 3, context_m := [''A'']\<rparr>))
   \<and> Reset toy (r_new\<lparr>nbest_m := 3, context_m := [''A'']\<rparr>) = Inl Null_deref
   \<and> run toy [wenet_reset] r_new = Some (Inl Null_deref)
   \<and> Decode toy r_new [1, 2] 2 0
       = Some (Inr (r_new\<lparr>feature_pipeline_m := (1, False), decoder_m := Some (None, 0)\<rparr>))
   \<and> Reset toy (r_new\<lparr>feature_pipeline_m := (1, False), decoder_m := Some (None, 0)\<rparr>)
       = Inr (r_new\<lparr>feature_pipeline_m := (0, False), decoder_m := Some (None, 0)\<rparr>)"
proof -
  have a: "\<forall>c \<in> set [wenet_set_nbest 3, wenet_add_context ''A'']. \<not> is_decode c"
    by simp
  have b: "run toy [wenet_set_nbest 3, wenet_add_context ''A''] (new_Recognizer (0, False))
       = Some (Inr (r_new\<lparr>nbest_m := 3, context_m := [''A'']\<rparr>))"
    by (simp add: r_new_def new_Recognizer_def set_nbest_def AddContext_def)
  have c: "Decode toy r_new [1, 2] 2 0
       = Some (Inr (r_new\<lparr>feature_pipeline_m := (1, False), decoder_m := Some (None, 0)\<rparr>))"
    unfolding r_new_def new_Recognizer_def by code_simp
  have d: "Reset toy (r_new\<lparr>feature_pipeline_m := (1, False), decoder_m := Some (None, 0)\<rparr>)
       = Inr (r_new\<lparr>feature_pipeline_m := (0, False), decoder_m := Some (None, 0)\<rparr>)"
    by (simp add: Reset_def toy_def r_new_def new_Recognizer_def)
  have e: "run toy [wenet_reset] r_new = Some (Inl Null_deref)"
    by (simp add: Reset_def toy_def r_new_def new_Recognizer_def)
  from Reset_requires_a_decode[of toy "(0, False)" "[wenet_set_nbest 3, wenet_add_context ''A'']"
      "r_new\<lparr>nbest_m := 3, context_m := [''A'']\<rparr>"] a b
  have "Reset toy (r_new\<lparr>nbest_m := 3, context_m := [''A'']\<rparr>) = Inl Null_deref"
    by blast
  with a b c d e show ?thesis unfolding r_new_def by simp
qed




section \<open>Properties of the model adapter\<close>

subsection \<open>Reset\<close>

lemma and_then_Inr_iff: "and_then a f = Inr y \<longleftrightarrow> (\<exists>x. a = Inr x \<and> f x = Inr y)"
  by (cases a) auto

lemma resize_zeros:
  "set xs \<subseteq> {0} \<Longrightarrow> resize n 0 xs = replicate n 0"
proof -
  assume z: "set xs \<subseteq> {0}"
  have "take n xs = replicate (min n (length xs)) 0"
  proof (rule replicate_eqI)
    show "length (take n xs) = min n (length xs)" by (simp add: min.commute)
    fix y assume "y \<in> set (take n xs)"
    then have "y \<in> set xs" by (rule in_set_takeD)
    with z show "y = 0" by auto
  qed
  then show ?thesis
    by (simp add: resize_def replicate_add[symmetric] min_def)
qed

lemma reset_att_cache_post:
  assumes "reset_att_cache m = Inr m'" and "set (att_cache_m m) \<subseteq> {0}"
  shows "offset_m m' = (if num_left_chunks_m m > 0 then chunk_size_m m * num_left_chunks_m m
                        else offset_m m)"
    and "att_cache_ort_m m' =
           FloatTensor [num_blocks_m m, head_m m,
                        (if num_left_chunks_m m > 0 then chunk_size_m m * num_left_chunks_m m else 0),
                        encoder_output_size_m m sdiv head_m m * 2]
             (replicate (if num_left_chunks_m m > 0
                         then nat (num_blocks_m m * head_m m * (chunk_size_m m * num_left_chunks_m m)
                                   * encoder_output_size_m m sdiv head_m m * 2)
                         else 0) 0)"
    and "att_cache_m m' = replicate (length (att_cache_m m')) 0"
    and "encoder_outs_m m' = encoder_outs_m m" and "cnn_cache_m m' = cnn_cache_m m"
    and "cached_feature_m m' = cached_feature_m m"
    and "num_blocks_m m' = num_blocks_m m" and "encoder_output_size_m m' = encoder_output_size_m m"
    and "cnn_module_kernel_m m' = cnn_module_kernel_m m"
  using assms
  by (auto simp: reset_att_cache_def and_then_Inr_iff mul32_def div32_def att_cache_size_def
      att_cache_last_dim_def vector_resize_def resize_zeros split: if_splits)

lemma reset_cnn_cache_post:
  assumes "reset_cnn_cache m = Inr m'" and "set (cnn_cache_m m) \<subseteq> {0}"
  shows "cnn_cache_ort_m m' =
           FloatTensor [num_blocks_m m, 1, encoder_output_size_m m, cnn_module_kernel_m m - 1]
             (replicate (nat (num_blocks_m m * encoder_output_size_m m * (cnn_module_kernel_m m - 1))) 0)"
    and "cnn_cache_m m' = replicate (length (cnn_cache_m m')) 0"
    and "offset_m m' = offset_m m" and "encoder_outs_m m' = encoder_outs_m m"
    and "att_cache_ort_m m' = att_cache_ort_m m" and "att_cache_m m' = att_cache_m m"
    and "cached_feature_m m' = cached_feature_m m"
  using assms
  by (auto simp: reset_cnn_cache_def and_then_Inr_iff mul32_def sub32_def cnn_cache_size_def
      vector_resize_def resize_zeros split: if_splits)

lemma sdiv_nonneg: "0 \<le> a \<Longrightarrow> 0 < b \<Longrightarrow> (a::int) sdiv b = a div b"
  by (simp add: signed_divide_int_def sgn_if)

lemma int32_half: "0 \<le> x \<Longrightarrow> int32 (x * 2) \<Longrightarrow> int32 x"
  by (simp add: int32_def)

lemma sdiv_nonneg_ge0: "0 \<le> a \<Longrightarrow> 0 < b \<Longrightarrow> 0 \<le> (a::int) sdiv b"
  by (simp add: sdiv_nonneg pos_imp_zdiv_nonneg_iff)

lemma att_cache_size_ok:
  assumes "0 \<le> num_blocks_m m" "0 < head_m m" "0 \<le> encoder_output_size_m m" "0 \<le> req"
    and "int32 (num_blocks_m m * head_m m)" "int32 (num_blocks_m m * head_m m * req)"
    and "int32 (num_blocks_m m * head_m m * req * encoder_output_size_m m)"
    and "int32 (num_blocks_m m * head_m m * req * encoder_output_size_m m sdiv head_m m * 2)"
  shows "att_cache_size m req =
           Inr (num_blocks_m m * head_m m * req * encoder_output_size_m m sdiv head_m m * 2)"
proof -
  let ?c = "num_blocks_m m * head_m m * req * encoder_output_size_m m"
  have "0 \<le> ?c" using assms(1-4) by simp
  then have "0 \<le> ?c sdiv head_m m" using assms(2) by (rule sdiv_nonneg_ge0)
  then have "int32 (?c sdiv head_m m)" using assms(8) by (rule int32_half)
  then show ?thesis
    using assms by (simp add: att_cache_size_def mul32_def div32_def)
qed

lemma att_cache_last_dim_ok:
  assumes "0 < head_m m" "0 \<le> encoder_output_size_m m"
    and "int32 (encoder_output_size_m m sdiv head_m m * 2)"
  shows "att_cache_last_dim m = Inr (encoder_output_size_m m sdiv head_m m * 2)"
proof -
  have "0 \<le> encoder_output_size_m m sdiv head_m m"
    using assms(2,1) by (rule sdiv_nonneg_ge0)
  then have "int32 (encoder_output_size_m m sdiv head_m m)" using assms(3) by (rule int32_half)
  then show ?thesis
    using assms by (simp add: att_cache_last_dim_def mul32_def div32_def)
qed

lemma reset_att_cache_returns:
  assumes "metadata_ok m"
  shows "\<exists>m1. reset_att_cache m = Inr m1 \<and> num_blocks_m m1 = num_blocks_m m
      \<and> encoder_output_size_m m1 = encoder_output_size_m m
      \<and> cnn_module_kernel_m m1 = cnn_module_kernel_m m"
proof (cases "num_left_chunks_m m > 0")
  case True
  let ?req = "chunk_size_m m * num_left_chunks_m m"
  from assms True have f: "0 \<le> num_blocks_m m" "0 < head_m m" "0 \<le> encoder_output_size_m m"
    "0 \<le> ?req" "int32 ?req"
    "int32 (num_blocks_m m * head_m m)" "int32 (num_blocks_m m * head_m m * ?req)"
    "int32 (num_blocks_m m * head_m m * ?req * encoder_output_size_m m)"
    "int32 (num_blocks_m m * head_m m * ?req * encoder_output_size_m m sdiv head_m m * 2)"
    "int32 (encoder_output_size_m m sdiv head_m m * 2)"
    by (simp_all add: metadata_ok_def Let_def)
  have n: "0 \<le> num_blocks_m m * head_m m * ?req * encoder_output_size_m m sdiv head_m m * 2"
    using sdiv_nonneg_ge0[of "num_blocks_m m * head_m m * ?req * encoder_output_size_m m" "head_m m"] f
    by simp
  show ?thesis
    using True f(5) n att_cache_size_ok[OF f(1-4) f(6-9)] att_cache_last_dim_ok[OF f(2,3,10)]
    by (simp add: reset_att_cache_def mul32_def vector_resize_def)
next
  case False
  from assms have f: "0 < head_m m" "0 \<le> encoder_output_size_m m"
    "int32 (encoder_output_size_m m sdiv head_m m * 2)"
    by (simp_all add: metadata_ok_def Let_def)
  show ?thesis
    using False att_cache_last_dim_ok[OF f]
    by (simp add: reset_att_cache_def vector_resize_def)
qed

lemma reset_cnn_cache_returns:
  assumes "0 \<le> num_blocks_m m" "0 \<le> encoder_output_size_m m" "0 \<le> cnn_module_kernel_m m - 1"
    and "int32 (cnn_module_kernel_m m - 1)" "int32 (num_blocks_m m * encoder_output_size_m m)"
    and "int32 (num_blocks_m m * encoder_output_size_m m * (cnn_module_kernel_m m - 1))"
  shows "\<exists>m2. reset_cnn_cache m = Inr m2"
proof -
  have "0 \<le> num_blocks_m m * encoder_output_size_m m * (cnn_module_kernel_m m - 1)"
    using assms(1-3) by simp
  then show ?thesis
    using assms(4-6)
    by (simp add: reset_cnn_cache_def cnn_cache_size_def mul32_def sub32_def vector_resize_def)
qed

lemma metadata_ok_fields:
  "metadata_ok (m\<lparr>offset_m := a, encoder_outs_m := b\<rparr>) = metadata_ok m"
  by (simp add: metadata_ok_def)

lemma reset_returns:
  assumes "metadata_ok m"
  shows "\<exists>m'. OnnxAsrModel_Reset m = Inr m'"
proof -
  let ?m0 = "m\<lparr>offset_m := 0, encoder_outs_m := []\<rparr>"
  have ok0: "metadata_ok ?m0" using assms by (simp only: metadata_ok_fields)
  from reset_att_cache_returns[OF ok0]
  obtain m1 where m1: "reset_att_cache ?m0 = Inr m1" "num_blocks_m m1 = num_blocks_m m"
    "encoder_output_size_m m1 = encoder_output_size_m m"
    "cnn_module_kernel_m m1 = cnn_module_kernel_m m" by auto
  from assms have f: "0 \<le> num_blocks_m m" "0 \<le> encoder_output_size_m m"
    "0 \<le> cnn_module_kernel_m m - 1"
    "int32 (cnn_module_kernel_m m - 1)" "int32 (num_blocks_m m * encoder_output_size_m m)"
    "int32 (num_blocks_m m * encoder_output_size_m m * (cnn_module_kernel_m m - 1))"
    by (simp_all add: metadata_ok_def Let_def)
  have "\<exists>m2. reset_cnn_cache m1 = Inr m2"
    by (rule reset_cnn_cache_returns) (use f in \<open>simp_all add: m1\<close>)
  with m1(1) show ?thesis by (auto simp: OnnxAsrModel_Reset_def)
qed

text \<open>
  C4. After a reset that returns: the offset is \<open>chunk_size \<times> num_left_chunks\<close> when
  \<open>num_left_chunks > 0\<close> and 0 otherwise; \<open>encoder_outs\<close> is empty; the attention cache
  is a zero-filled tensor of shape \<open>[num_blocks, num_heads, chunk_size \<times> num_left_chunks,
  enc_dim / num_heads * 2]\<close> when \<open>num_left_chunks > 0\<close> and an empty tensor with cache
  length 0 otherwise; the convolution cache is a zero-filled tensor of shape
  \<open>[num_blocks, 1, enc_dim, cnn_kernel - 1]\<close>. The two vectors behind the tensors hold
  nothing but zeros before the reset (they are empty in a new model, and only a reset
  writes them) and after it. With metadata that \<open>metadata_ok\<close> accepts the reset returns.
\<close>

theorem Reset_postcondition:
  assumes "set (att_cache_m m) \<subseteq> {0}" and "set (cnn_cache_m m) \<subseteq> {0}"
  shows "(OnnxAsrModel_Reset m = Inr m' \<longrightarrow>
            offset_m m' = (if num_left_chunks_m m > 0
                           then chunk_size_m m * num_left_chunks_m m else 0)
            \<and> encoder_outs_m m' = []
            \<and> att_cache_ort_m m' =
                FloatTensor [num_blocks_m m, head_m m,
                             (if num_left_chunks_m m > 0
                              then chunk_size_m m * num_left_chunks_m m else 0),
                             encoder_output_size_m m sdiv head_m m * 2]
                  (replicate (if num_left_chunks_m m > 0
                              then nat (num_blocks_m m * head_m m
                                        * (chunk_size_m m * num_left_chunks_m m)
                                        * encoder_output_size_m m sdiv head_m m * 2)
                              else 0) 0)
            \<and> cnn_cache_ort_m m' =
                FloatTensor [num_blocks_m m, 1, encoder_output_size_m m, cnn_module_kernel_m m - 1]
                  (replicate (nat (num_blocks_m m * encoder_output_size_m m
                                   * (cnn_module_kernel_m m - 1))) 0)
            \<and> set (att_cache_m m') \<subseteq> {0} \<and> set (cnn_cache_m m') \<subseteq> {0})
         \<and> (metadata_ok m \<longrightarrow> (\<exists>m'. OnnxAsrModel_Reset m = Inr m'))"
proof (intro conjI impI)
  assume r: "OnnxAsrModel_Reset m = Inr m'"
  let ?m0 = "m\<lparr>offset_m := 0, encoder_outs_m := []\<rparr>"
  from r obtain m1 where a: "reset_att_cache ?m0 = Inr m1" and c: "reset_cnn_cache m1 = Inr m'"
    by (auto simp: OnnxAsrModel_Reset_def and_then_Inr_iff)
  have z0: "set (att_cache_m ?m0) \<subseteq> {0}" using assms(1) by simp
  note pa = reset_att_cache_post[OF a z0]
  have z1: "set (cnn_cache_m m1) \<subseteq> {0}" using assms(2) pa(5) by simp
  note pc = reset_cnn_cache_post[OF c z1]
  show "offset_m m' = (if num_left_chunks_m m > 0
                           then chunk_size_m m * num_left_chunks_m m else 0)"
    using pa(1) pc(3) by simp
  show "encoder_outs_m m' = []" using pa(4) pc(4) by simp
  show "att_cache_ort_m m' =
                FloatTensor [num_blocks_m m, head_m m,
                             (if num_left_chunks_m m > 0
                              then chunk_size_m m * num_left_chunks_m m else 0),
                             encoder_output_size_m m sdiv head_m m * 2]
                  (replicate (if num_left_chunks_m m > 0
                              then nat (num_blocks_m m * head_m m
                                        * (chunk_size_m m * num_left_chunks_m m)
                                        * encoder_output_size_m m sdiv head_m m * 2)
                              else 0) 0)"
    using pa(2) pc(5) by simp
  show "cnn_cache_ort_m m' =
                FloatTensor [num_blocks_m m, 1, encoder_output_size_m m, cnn_module_kernel_m m - 1]
                  (replicate (nat (num_blocks_m m * encoder_output_size_m m
                                   * (cnn_module_kernel_m m - 1))) 0)"
    using pc(1) pa(7,8,9) by simp
  have "set (att_cache_m m') \<subseteq> set (replicate (length (att_cache_m m1)) (0::'a))"
    using pa(3) pc(6) by simp
  then show "set (att_cache_m m') \<subseteq> {0}" by auto
  have "set (cnn_cache_m m') \<subseteq> set (replicate (length (cnn_cache_m m')) (0::'a))"
    using pc(2) by simp
  then show "set (cnn_cache_m m') \<subseteq> {0}" by auto
next
  assume "metadata_ok m"
  then show "\<exists>m'. OnnxAsrModel_Reset m = Inr m'" by (rule reset_returns)
qed

theorem Reset_postcondition_witness:
  "set (att_cache_m toy_model_used) \<subseteq> {0} \<and> set (cnn_cache_m toy_model_used) \<subseteq> {0}
   \<and> metadata_ok toy_model_used
   \<and> OnnxAsrModel_Reset toy_model_used =
       Inr (toy_model\<lparr>offset_m := 4,
              att_cache_m := replicate 32 0, cnn_cache_m := replicate 8 0,
              att_cache_ort_m := FloatTensor [1, 2, 4, 4] (replicate 32 0),
              cnn_cache_ort_m := FloatTensor [1, 1, 4, 2] (replicate 8 0),
              cached_feature_m := [[7, 8]]\<rparr>)"
proof -
  have a: "set (att_cache_m toy_model_used) \<subseteq> {0}" "set (cnn_cache_m toy_model_used) \<subseteq> {0}"
    by (simp_all add: toy_model_used_def toy_model_def)
  have ok: "metadata_ok toy_model_used"
    by (simp add: metadata_ok_def toy_model_used_def toy_model_def int32_def
        signed_divide_int_def)
  have r: "OnnxAsrModel_Reset toy_model_used =
       Inr (toy_model\<lparr>offset_m := 4,
              att_cache_m := replicate 32 0, cnn_cache_m := replicate 8 0,
              att_cache_ort_m := FloatTensor [1, 2, 4, 4] (replicate 32 0),
              cnn_cache_ort_m := FloatTensor [1, 1, 4, 2] (replicate 8 0),
              cached_feature_m := [[7, 8]]\<rparr>)"
    by code_simp
  from Reset_postcondition[OF a, THEN conjunct2] ok
  have "\<exists>m'. OnnxAsrModel_Reset toy_model_used = Inr m'" by blast
  with a ok r show ?thesis by simp
qed

subsection \<open>The cached frames\<close>

text \<open>
  C3, as the code behaves. \<^verbatim>\<open>Reset\<close> does not touch \<^verbatim>\<open>cached_feature_\<close>: the
  frames cached by the previous stream are still there after a reset that returns,
  and the first \<^verbatim>\<open>ForwardEncoderFunc\<close> of the next stream splices its chunk behind
  them.
\<close>

theorem Reset_keeps_cached_feature:
  assumes "OnnxAsrModel_Reset m = Inr m'"
  shows "cached_feature_m m' = cached_feature_m m"
proof -
  from assms obtain m1
    where a: "reset_att_cache (m\<lparr>offset_m := 0, encoder_outs_m := []\<rparr>) = Inr m1"
      and c: "reset_cnn_cache m1 = Inr m'"
    by (auto simp: OnnxAsrModel_Reset_def and_then_Inr_iff)
  from a have "cached_feature_m m1 = cached_feature_m m"
    by (auto simp: reset_att_cache_def and_then_Inr_iff split: if_splits)
  moreover from c have "cached_feature_m m' = cached_feature_m m1"
    by (auto simp: reset_cnn_cache_def and_then_Inr_iff)
  ultimately show ?thesis by simp
qed

theorem Reset_keeps_cached_feature_witness:
  "OnnxAsrModel_Reset toy_model_used =
       Inr (toy_model\<lparr>offset_m := 4,
              att_cache_m := replicate 32 0, cnn_cache_m := replicate 8 0,
              att_cache_ort_m := FloatTensor [1, 2, 4, 4] (replicate 32 0),
              cnn_cache_ort_m := FloatTensor [1, 1, 4, 2] (replicate 8 0),
              cached_feature_m := [[7, 8]]\<rparr>)
   \<and> cached_feature_m toy_model_used = [[7, 8]]
   \<and> make_feats (toy_model\<lparr>offset_m := 4,
              att_cache_m := replicate 32 0, cnn_cache_m := replicate 8 0,
              att_cache_ort_m := FloatTensor [1, 2, 4, 4] (replicate 32 0),
              cnn_cache_ort_m := FloatTensor [1, 1, 4, 2] (replicate 8 0),
              cached_feature_m := [[7, 8]]\<rparr>) [[1, 2], [3, 4]]
       = Inr (FloatTensor [1, 3, 2] [7, 8, 1, 2, 3, 4])"
proof -
  have r: "OnnxAsrModel_Reset toy_model_used =
       Inr (toy_model\<lparr>offset_m := 4,
              att_cache_m := replicate 32 0, cnn_cache_m := replicate 8 0,
              att_cache_ort_m := FloatTensor [1, 2, 4, 4] (replicate 32 0),
              cnn_cache_ort_m := FloatTensor [1, 1, 4, 2] (replicate 8 0),
              cached_feature_m := [[7, 8]]\<rparr>)"
    by code_simp
  have f: "make_feats (toy_model\<lparr>offset_m := 4,
              att_cache_m := replicate 32 0, cnn_cache_m := replicate 8 0,
              att_cache_ort_m := FloatTensor [1, 2, 4, 4] (replicate 32 0),
              cnn_cache_ort_m := FloatTensor [1, 1, 4, 2] (replicate 8 0),
              cached_feature_m := [[7, 8]]\<rparr>) [[1, 2], [3, 4]]
       = Inr (FloatTensor [1, 3, 2] [7, 8, 1, 2, 3, 4])"
    by (simp add: make_feats_def toy_model_def)
  from Reset_keeps_cached_feature[OF r] have "cached_feature_m toy_model_used = [[7, 8]]"
    by simp
  with r f show ?thesis by simp
qed

subsection \<open>The offset\<close>

lemma to_int32_id: "0 \<le> t \<Longrightarrow> t < 2 ^ 31 \<Longrightarrow> to_int32 t = t"
  unfolding to_int32_def by (simp add: int_word_sint)

lemma ForwardEncoderFunc_Inr:
  assumes "ForwardEncoderFunc S m chunk_feats = Inr (m', out_prob)"
  shows "\<exists>inputs outs shape t.
           encoder_inputs m chunk_feats = Inr inputs \<and> encoder_session_Run S inputs = Inr outs
           \<and> GetShape (outs ! 0) = Inr shape \<and> at_index shape 1 = Inr t
           \<and> int32 (offset_m m + to_int32 t)
           \<and> m' = m\<lparr>offset_m := offset_m m + to_int32 t,
                     att_cache_ort_m := outs ! 1, cnn_cache_ort_m := outs ! 2,
                     encoder_outs_m := encoder_outs_m m @ [outs ! 0]\<rparr>"
  using assms
  by (auto simp: ForwardEncoderFunc_def and_then_Inr_iff add32_def split: if_splits)

lemma ForwardEncoderFunc_keeps_vectors:
  assumes "ForwardEncoderFunc S m chunk_feats = Inr (m', out_prob)"
  shows "att_cache_m m' = att_cache_m m" and "cnn_cache_m m' = cnn_cache_m m"
    and "cached_feature_m m' = cached_feature_m m"
  using ForwardEncoderFunc_Inr[OF assms] by auto

lemma time_dim_eq: "GetShape v = Inr shape \<Longrightarrow> at_index shape 1 = Inr t \<Longrightarrow> time_dim v = t"
  by (simp add: time_dim_def)

lemma at_index_Inr: "at_index xs i = Inr x \<Longrightarrow> 0 \<le> i \<and> i < int (length xs) \<and> x = xs ! nat i"
  by (auto simp: at_index_def split: if_splits)

lemma ForwardEncoderFunc_offset:
  assumes "ForwardEncoderFunc S m chunk_feats = Inr (m', out_prob)"
  shows "\<exists>encoded. encoder_outs_m m' = encoder_outs_m m @ [encoded]
           \<and> GetShape encoded \<noteq> Inl Ort_error
           \<and> offset_m m' = offset_m m + to_int32 (time_dim encoded)
           \<and> int32 (offset_m m')"
proof -
  from ForwardEncoderFunc_Inr[OF assms] obtain outs shape t where
    f: "GetShape (outs ! 0) = Inr shape" "at_index shape 1 = Inr t"
      "int32 (offset_m m + to_int32 t)"
      "m' = m\<lparr>offset_m := offset_m m + to_int32 t,
                att_cache_ort_m := outs ! 1, cnn_cache_ort_m := outs ! 2,
                encoder_outs_m := encoder_outs_m m @ [outs ! 0]\<rparr>"
    by blast
  have "time_dim (outs ! 0) = t" using f(1,2) by (rule time_dim_eq)
  with f show ?thesis by simp
qed

lemma forward_chunks_offset:
  assumes "forward_chunks S m chunks = Inr m'"
  shows "\<exists>new. encoder_outs_m m' = encoder_outs_m m @ new \<and> length new = length chunks
           \<and> (time_dims_ok new \<longrightarrow>
                offset_m m' = offset_m m + sum_list (map time_dim new)
                \<and> offset_m m \<le> offset_m m')"
  using assms
proof (induction chunks arbitrary: m)
  case Nil
  then show ?case by (simp add: time_dims_ok_def)
next
  case (Cons c chunks)
  from Cons.prems obtain m1 p where s: "ForwardEncoderFunc S m c = Inr (m1, p)"
    and r: "forward_chunks S m1 chunks = Inr m'"
    by (auto simp: and_then_Inr_iff)
  from ForwardEncoderFunc_offset[OF s] obtain encoded where
    e: "encoder_outs_m m1 = encoder_outs_m m @ [encoded]"
      "offset_m m1 = offset_m m + to_int32 (time_dim encoded)" by blast
  from Cons.IH[OF r] obtain new where
    n: "encoder_outs_m m' = encoder_outs_m m1 @ new" "length new = length chunks"
      "time_dims_ok new \<longrightarrow>
         offset_m m' = offset_m m1 + sum_list (map time_dim new) \<and> offset_m m1 \<le> offset_m m'"
    by blast
  show ?case
  proof (intro exI[of _ "encoded # new"] conjI impI)
    show "encoder_outs_m m' = encoder_outs_m m @ encoded # new" using e(1) n(1) by simp
    show "length (encoded # new) = length (c # chunks)" using n(2) by simp
    assume ok: "time_dims_ok (encoded # new)"
    then have t: "0 \<le> time_dim encoded" "time_dim encoded < 2 ^ 31" and okn: "time_dims_ok new"
      by (simp_all add: time_dims_ok_def)
    have "to_int32 (time_dim encoded) = time_dim encoded" using t by (rule to_int32_id)
    with e(2) n(3) okn t
    show "offset_m m' = offset_m m + sum_list (map time_dim (encoded # new))"
      and "offset_m m \<le> offset_m m'"
      by simp_all
  qed
qed

text \<open>
  C6. Within one stream, each \<^verbatim>\<open>ForwardEncoderFunc\<close> that returns appends the
  encoder output of its chunk, a value whose shape could be read, to \<open>encoder_outs\<close> and adds that output's time dimension
  (cast to \<^verbatim>\<open>int\<close>) to the offset. A time dimension is a count that fits an
  \<^verbatim>\<open>int\<close>: then the offset after the chunk is at least the offset before it and the
  difference is the time dimension, and over the chunks of a stream the offset never
  decreases and grows by the sum of the time dimensions.
\<close>

theorem offset_monotone:
  "(ForwardEncoderFunc S m chunk_feats = Inr (m', out_prob) \<longrightarrow>
      (\<exists>encoded. encoder_outs_m m' = encoder_outs_m m @ [encoded]
         \<and> GetShape encoded \<noteq> Inl Ort_error
         \<and> offset_m m' = offset_m m + to_int32 (time_dim encoded)
         \<and> (0 \<le> time_dim encoded \<and> time_dim encoded < 2 ^ 31 \<longrightarrow>
              offset_m m \<le> offset_m m' \<and> offset_m m' - offset_m m = time_dim encoded)))
   \<and> (forward_chunks S m0 chunks = Inr m1 \<longrightarrow>
        (\<exists>new. encoder_outs_m m1 = encoder_outs_m m0 @ new \<and> length new = length chunks
           \<and> (time_dims_ok new \<longrightarrow>
                offset_m m1 = offset_m m0 + sum_list (map time_dim new)
                \<and> offset_m m0 \<le> offset_m m1)))"
proof (intro conjI impI)
  assume a: "ForwardEncoderFunc S m chunk_feats = Inr (m', out_prob)"
  from ForwardEncoderFunc_offset[OF a] obtain encoded where
    e: "encoder_outs_m m' = encoder_outs_m m @ [encoded]"
      "GetShape encoded \<noteq> Inl Ort_error"
      "offset_m m' = offset_m m + to_int32 (time_dim encoded)" by blast
  show "\<exists>encoded. encoder_outs_m m' = encoder_outs_m m @ [encoded]
         \<and> GetShape encoded \<noteq> Inl Ort_error
         \<and> offset_m m' = offset_m m + to_int32 (time_dim encoded)
         \<and> (0 \<le> time_dim encoded \<and> time_dim encoded < 2 ^ 31 \<longrightarrow>
              offset_m m \<le> offset_m m' \<and> offset_m m' - offset_m m = time_dim encoded)"
    using e by (intro exI[of _ encoded]) (simp add: to_int32_id)
next
  assume "forward_chunks S m0 chunks = Inr m1"
  then show "\<exists>new. encoder_outs_m m1 = encoder_outs_m m0 @ new \<and> length new = length chunks
           \<and> (time_dims_ok new \<longrightarrow>
                offset_m m1 = offset_m m0 + sum_list (map time_dim new)
                \<and> offset_m m0 \<le> offset_m m1)"
    by (rule forward_chunks_offset)
qed

theorem offset_monotone_witness:
  "ForwardEncoderFunc toy_sessions toy_model_reset [[1, 2], [3, 4]] =
     Inr (toy_model_reset\<lparr>offset_m := 6,
            att_cache_ort_m := FloatTensor [1, 2, 4, 4] (replicate 32 2),
            cnn_cache_ort_m := FloatTensor [1, 1, 4, 2] (replicate 8 3),
            encoder_outs_m := [FloatTensor [1, 2, 4] (replicate 8 1)]\<rparr>,
          [[1, 2, 3], [4, 5, 6]])
   \<and> offset_m toy_model_reset = 4
   \<and> time_dim (FloatTensor [1, 2, 4] (replicate 8 1) :: real Value) = 2
   \<and> forward_chunks toy_sessions toy_model_reset [[[1, 2], [3, 4]], [[5, 6], [7, 8]]] =
     Inr (toy_model_reset\<lparr>offset_m := 8,
            att_cache_ort_m := FloatTensor [1, 2, 4, 4] (replicate 32 2),
            cnn_cache_ort_m := FloatTensor [1, 1, 4, 2] (replicate 8 3),
            encoder_outs_m := [FloatTensor [1, 2, 4] (replicate 8 1),
                               FloatTensor [1, 2, 4] (replicate 8 1)]\<rparr>)
   \<and> time_dims_ok [FloatTensor [1, 2, 4] (replicate 8 1) :: real Value,
                    FloatTensor [1, 2, 4] (replicate 8 1)]"
proof -
  have a: "ForwardEncoderFunc toy_sessions toy_model_reset [[1, 2], [3, 4]] =
     Inr (toy_model_reset\<lparr>offset_m := 6,
            att_cache_ort_m := FloatTensor [1, 2, 4, 4] (replicate 32 2),
            cnn_cache_ort_m := FloatTensor [1, 1, 4, 2] (replicate 8 3),
            encoder_outs_m := [FloatTensor [1, 2, 4] (replicate 8 1)]\<rparr>,
          [[1, 2, 3], [4, 5, 6]])"
    by code_simp
  have b: "forward_chunks toy_sessions toy_model_reset [[[1, 2], [3, 4]], [[5, 6], [7, 8]]] =
     Inr (toy_model_reset\<lparr>offset_m := 8,
            att_cache_ort_m := FloatTensor [1, 2, 4, 4] (replicate 32 2),
            cnn_cache_ort_m := FloatTensor [1, 1, 4, 2] (replicate 8 3),
            encoder_outs_m := [FloatTensor [1, 2, 4] (replicate 8 1),
                               FloatTensor [1, 2, 4] (replicate 8 1)]\<rparr>)"
    by code_simp
  have c: "offset_m toy_model_reset = 4"
    by (simp add: toy_model_reset_def toy_model_def)
  have d: "time_dim (FloatTensor [1, 2, 4] (replicate 8 1) :: real Value) = 2"
    by (simp add: time_dim_def at_index_def)
  have e: "time_dims_ok [FloatTensor [1, 2, 4] (replicate 8 1) :: real Value,
                    FloatTensor [1, 2, 4] (replicate 8 1)]"
    by (simp add: time_dims_ok_def d)
  from offset_monotone[THEN conjunct1, rule_format, OF a]
  have "\<exists>encoded. encoder_outs_m (toy_model_reset\<lparr>offset_m := 6,
            att_cache_ort_m := FloatTensor [1, 2, 4, 4] (replicate 32 2),
            cnn_cache_ort_m := FloatTensor [1, 1, 4, 2] (replicate 8 3),
            encoder_outs_m := [FloatTensor [1, 2, 4] (replicate 8 1)]\<rparr>)
          = encoder_outs_m toy_model_reset @ [encoded]"
    by blast
  with a b c d e show ?thesis by simp
qed

subsection \<open>The attention mask\<close>
















subsection \<open>Rescoring\<close>

text \<open>
  C9, as the code has it. When the list of hypotheses is empty or no encoder output
  has been kept, \<^verbatim>\<open>AttentionRescoring\<close> returns before the decoder graph is run.
  Called with an empty score vector it returns one entry of 0 per hypothesis. In
  general the vector is the caller's vector resized to the number of hypotheses: an
  entry that the vector already had keeps its value and every other entry is 0.
\<close>

theorem rescoring_without_input:
  assumes "hyps = [] \<or> encoder_outs_m m = []"
  shows "AttentionRescoring S m hyps reverse_weight []
           = Inr (replicate (length hyps) (0::'a::{plus,minus,times,zero,one,ord}), [])
         \<and> AttentionRescoring S m hyps reverse_weight rescoring_score
             = Inr (resize (length hyps) 0 rescoring_score, [])
         \<and> length (resize (length hyps) (0::'a) rescoring_score) = length hyps
         \<and> (\<forall>i < length hyps.
               resize (length hyps) 0 rescoring_score ! i
                 = (if i < length rescoring_score then rescoring_score ! i else 0))"
proof (intro conjI allI impI)
  show "AttentionRescoring S m hyps reverse_weight [] = Inr (replicate (length hyps) (0::'a), [])"
    using assms by (auto simp: AttentionRescoring_def Let_def resize_def)
  show "AttentionRescoring S m hyps reverse_weight rescoring_score
           = Inr (resize (length hyps) 0 rescoring_score, [])"
    using assms by (auto simp: AttentionRescoring_def Let_def)
  show "length (resize (length hyps) (0::'a) rescoring_score) = length hyps"
    by (simp add: resize_def)
  fix i assume "i < length hyps"
  then show "resize (length hyps) 0 rescoring_score ! i
                 = (if i < length rescoring_score then rescoring_score ! i else 0)"
    by (simp add: resize_def nth_append)
qed

theorem rescoring_without_input_witness:
  "encoder_outs_m toy_model_reset = []
   \<and> AttentionRescoring toy_sessions toy_model_reset [[0, 1], [1]] (1 / 2) [] = Inr ([0, 0], [])
   \<and> AttentionRescoring toy_sessions toy_model_streamed [] (1 / 2) [] = Inr ([], [])"
proof -
  have e: "encoder_outs_m toy_model_reset = []"
    by (simp add: toy_model_reset_def toy_model_def)
  from rescoring_without_input[of "[[0, 1], [1]]" toy_model_reset toy_sessions "1 / 2",
      OF disjI2[OF e], THEN conjunct1]
  have a: "AttentionRescoring toy_sessions toy_model_reset [[0, 1], [1]] (1 / 2) [] = Inr ([0, 0], [])"
    by (simp add: numeral_eq_Suc)
  from rescoring_without_input[of "[]" toy_model_streamed toy_sessions "1 / 2",
      OF disjI1[OF refl], THEN conjunct1]
  have b: "AttentionRescoring toy_sessions toy_model_streamed [] (1 / 2) [] = Inr ([], [])"
    by simp
  show ?thesis by (intro conjI e a b)
qed

text \<open>
  The claim C9 as the specification states it fails when the caller's vector is not
  empty: with one hypothesis, no encoder output and the vector \<open>[5]\<close>, the returned
  entry is 5, not 0.
\<close>

theorem rescoring_keeps_callers_entries:
  "encoder_outs_m toy_model_reset = []
   \<and> AttentionRescoring toy_sessions toy_model_reset [[0, 1]] (1 / 2) [5] = Inr ([5], [])"
  by (simp add: AttentionRescoring_def resize_def toy_model_reset_def toy_model_def)

lemma length_concat_uniform:
  "list_all (\<lambda>xs. length xs = n) xss \<Longrightarrow> length (concat xss) = length xss * n"
  by (induction xss) simp_all

lemma concat_nth_uniform:
  "list_all (\<lambda>xs. length xs = n) xss \<Longrightarrow> i < length xss \<Longrightarrow> j < n \<Longrightarrow>
     concat xss ! (i * n + j) = xss ! i ! j"
proof (induction xss arbitrary: i)
  case Nil
  then show ?case by simp
next
  case (Cons xs xss)
  show ?case
  proof (cases i)
    case 0
    with Cons.prems show ?thesis by (simp add: nth_append)
  next
    case (Suc k)
    with Cons.prems have "concat xss ! (k * n + j) = xss ! k ! j"
      by (intro Cons.IH) simp_all
    with Suc Cons.prems show ?thesis by (simp add: nth_append)
  qed
qed

lemma cube_row:
  assumes "cube n l v probs" and "i < n"
  shows "length (probs ! i) = l" and "list_all (\<lambda>row. length row = v) (probs ! i)"
  using assms by (auto simp: cube_def list_all_length)

lemma length_flat3: "cube n l v probs \<Longrightarrow> length (flat3 probs) = n * (l * v)"
proof -
  assume c: "cube n l v probs"
  have "list_all (\<lambda>xs. length xs = l * v) (map concat probs)"
    using c by (auto simp: cube_def list_all_iff length_concat_uniform)
  from length_concat_uniform[OF this] c show ?thesis
    by (simp add: flat3_def cube_def)
qed

lemma flat3_nth:
  assumes c: "cube n l v probs" and i: "i < n" and t: "t < l" and h: "h < v"
  shows "flat3 probs ! (i * (l * v) + (t * v + h)) = probs ! i ! t ! h"
proof -
  have u: "list_all (\<lambda>xs. length xs = l * v) (map concat probs)"
    using c by (auto simp: cube_def list_all_iff length_concat_uniform)
  have len: "length probs = n" using c by (simp add: cube_def)
  have "t * v + h < t * v + v" using h by simp
  also have "\<dots> = Suc t * v" by simp
  also have "\<dots> \<le> l * v" using t by (intro mult_le_mono1) simp
  finally have b: "t * v + h < l * v" .
  have "flat3 probs ! (i * (l * v) + (t * v + h)) = map concat probs ! i ! (t * v + h)"
    unfolding flat3_def using u i len b by (intro concat_nth_uniform) simp_all
  also have "\<dots> = concat (probs ! i) ! (t * v + h)" using i len by simp
  also have "\<dots> = probs ! i ! t ! h"
    using cube_row[OF c i] t h by (intro concat_nth_uniform) simp_all
  finally show ?thesis .
qed

lemma at_index_int: "k < length xs \<Longrightarrow> at_index xs (int k) = Inr (xs ! k)"
  by (simp add: at_index_def)

lemma at_index_flat3:
  assumes c: "cube n l v probs" and i: "i < n" and t: "t < l" and h: "0 \<le> h" "h < int v"
  shows "at_index (flat3 probs) (int l * int v * int i + int t * int v + h)
           = Inr (probs ! i ! t ! nat h)"
proof -
  have hv: "nat h < v" using h by simp
  have e: "int l * int v * int i + int t * int v + h = int (i * (l * v) + (t * v + nat h))"
    using h by (simp add: algebra_simps)
  have "t * v + nat h < t * v + v" using hv by simp
  also have "\<dots> = Suc t * v" by simp
  also have "\<dots> \<le> l * v" using t by (intro mult_le_mono1) simp
  finally have b: "t * v + nat h < l * v" .
  have "i * (l * v) + (t * v + nat h) < i * (l * v) + l * v" using b by simp
  also have "\<dots> = Suc i * (l * v)" by simp
  also have "\<dots> \<le> n * (l * v)" using i by (intro mult_le_mono1) simp
  finally have r: "i * (l * v) + (t * v + nat h) < length (flat3 probs)"
    using length_flat3[OF c] by simp
  show ?thesis
    unfolding e at_index_int[OF r] flat3_nth[OF c i t hv] ..
qed

lemma score_loop_flat3:
  assumes c: "cube n l v probs" and i: "i < n"
  shows "j0 + length hs \<le> l \<Longrightarrow> \<forall>h \<in> set hs. 0 \<le> h \<and> h < int v \<Longrightarrow>
     score_loop (flat3 probs) (int l * int v * int i) (int v) j0 hs acc
       = Inr (foldl (+) acc (map (\<lambda>t. probs ! i ! (j0 + t) ! nat (hs ! t)) [0 ..< length hs]))"
proof (induction hs arbitrary: j0 acc)
  case Nil
  then show ?case by simp
next
  case (Cons h hs)
  have j: "j0 < l" using Cons.prems(1) by simp
  have hr: "0 \<le> h" "h < int v" using Cons.prems(2) by simp_all
  have a: "at_index (flat3 probs) (int l * int v * int i + int j0 * int v + h)
      = Inr (probs ! i ! j0 ! nat h)"
    by (rule at_index_flat3[OF c i j hr])
  have ih: "score_loop (flat3 probs) (int l * int v * int i) (int v) (Suc j0) hs
        (acc + probs ! i ! j0 ! nat h)
      = Inr (foldl (+) (acc + probs ! i ! j0 ! nat h)
          (map (\<lambda>t. probs ! i ! (Suc j0 + t) ! nat (hs ! t)) [0 ..< length hs]))"
    using Cons.prems by (intro Cons.IH) simp_all
  have m: "map (\<lambda>t. probs ! i ! (j0 + t) ! nat ((h # hs) ! t)) [0 ..< length (h # hs)]
      = probs ! i ! j0 ! nat h
        # map (\<lambda>t. probs ! i ! (Suc j0 + t) ! nat (hs ! t)) [0 ..< length hs]"
    by (simp add: upt_conv_Cons map_Suc_upt[symmetric] del: upt_Suc)
  show ?case
    unfolding m using a ih by simp
qed

lemma ComputeAttentionScore_flat3:
  assumes c: "cube n l v probs" and i: "i < n" and len: "length hyp < l"
    and toks: "\<forall>h \<in> set hyp. 0 \<le> h \<and> h < int v" and eos: "0 \<le> eos" "eos < int v"
  shows "ComputeAttentionScore (flat3 probs) (int l * int v * int i) hyp eos (int v)
           = Inr (spec_score (probs ! i) hyp eos)"
proof -
  have l0: "0 + length hyp \<le> l" using len by simp
  have s: "score_loop (flat3 probs) (int l * int v * int i) (int v) 0 hyp 0
      = Inr (foldl (+) 0 (map (\<lambda>t. probs ! i ! t ! nat (hyp ! t)) [0 ..< length hyp]))"
    using score_loop_flat3[OF c i l0 toks, of 0] by simp
  have e: "at_index (flat3 probs) (int l * int v * int i + int (length hyp) * int v + eos)
      = Inr (probs ! i ! length hyp ! nat eos)"
    by (rule at_index_flat3[OF c i len eos])
  show ?thesis
    unfolding ComputeAttentionScore_def spec_score_def using s e by simp
qed

lemma fold_max_ge:
  "a \<le> fold (\<lambda>hyp acc. max (int (length hyp) + 1) acc) hyps (a::int)"
proof (induction hyps arbitrary: a)
  case Nil
  then show ?case by simp
next
  case (Cons x xs)
  have "a \<le> max (int (length x) + 1) a" by simp
  also have "\<dots> \<le> fold (\<lambda>hyp acc. max (int (length hyp) + 1) acc) xs (max (int (length x) + 1) a)"
    by (rule Cons.IH)
  finally show ?case by simp
qed

lemma fold_max_member:
  "hyp \<in> set hyps \<Longrightarrow>
     int (length hyp) + 1 \<le> fold (\<lambda>hyp acc. max (int (length hyp) + 1) acc) hyps a"
proof (induction hyps arbitrary: a)
  case Nil
  then show ?case by simp
next
  case (Cons x xs)
  show ?case
  proof (cases "hyp = x")
    case True
    have "int (length x) + 1 \<le> max (int (length x) + 1) a" by simp
    also have "\<dots> \<le> fold (\<lambda>hyp acc. max (int (length hyp) + 1) acc) xs (max (int (length x) + 1) a)"
      by (rule fold_max_ge)
    finally show ?thesis using True by simp
  next
    case False
    with Cons.prems have "hyp \<in> set xs" by simp
    from Cons.IH[OF this] show ?thesis by simp
  qed
qed

lemma max_hyps_len_of_member:
  "hyp \<in> set hyps \<Longrightarrow> int (length hyp) + 1 \<le> max_hyps_len_of hyps"
  unfolding max_hyps_len_of_def by (rule fold_max_member)

lemma rescoring_loop_map:
  "\<forall>k < length hs. f (i0 + k) (hs ! k) = Inr (g (i0 + k)) \<Longrightarrow>
     i0 + length hs \<le> length scores \<Longrightarrow>
     rescoring_loop f i0 hs scores
       = Inr (take i0 scores @ map g [i0 ..< i0 + length hs] @ drop (i0 + length hs) scores)"
proof (induction hs arbitrary: i0 scores)
  case Nil
  then show ?case by simp
next
  case (Cons h hs)
  from Cons.prems(1) have f0: "f i0 h = Inr (g i0)" by force
  have lt: "i0 < length scores" using Cons.prems(2) by simp
  have fk: "\<forall>k < length hs. f (Suc i0 + k) (hs ! k) = Inr (g (Suc i0 + k))"
  proof (intro allI impI)
    fix k assume "k < length hs"
    then have "Suc k < length (h # hs)" by simp
    from Cons.prems(1)[rule_format, OF this] show "f (Suc i0 + k) (hs ! k) = Inr (g (Suc i0 + k))"
      by simp
  qed
  have le: "Suc i0 + length hs \<le> length (scores[i0 := g i0])" using Cons.prems(2) by simp
  have ih: "rescoring_loop f (Suc i0) hs (scores[i0 := g i0])
      = Inr (take (Suc i0) (scores[i0 := g i0]) @ map g [Suc i0 ..< Suc i0 + length hs]
             @ drop (Suc i0 + length hs) (scores[i0 := g i0]))"
    by (rule Cons.IH[OF fk le])
  have t: "take (Suc i0) (scores[i0 := g i0]) = take i0 scores @ [g i0]"
    using lt by (simp add: take_Suc_conv_app_nth)
  have d: "drop (Suc i0 + length hs) (scores[i0 := g i0]) = drop (Suc i0 + length hs) scores"
    by simp
  have u: "[i0 ..< i0 + length (h # hs)] = i0 # [Suc i0 ..< Suc i0 + length hs]"
    by (simp add: upt_conv_Cons del: upt_Suc)
  show ?case
    unfolding u using f0 lt ih t d by simp
qed

lemma hyp_score_flat3:
  assumes cl: "cube n l v left_probs" and cr: "cube n l v right_probs" and i: "i < n"
    and len: "length hyp < l" and toks: "\<forall>h \<in> set hyp. 0 \<le> h \<and> h < int v"
    and eos: "0 \<le> eos_m m" "eos_m m < int v" and b: "int32 (int l * int v)"
  shows "hyp_score m reverse_weight (flat3 left_probs) (flat3 right_probs) (int l) (int v) i hyp
           = Inr (rescore_formula (is_bidirectional_decoder_m m) (eos_m m) reverse_weight
                    (left_probs ! i) (right_probs ! i) hyp)"
proof -
  have lrev: "length (rev hyp) < l" using len by simp
  have trev: "\<forall>h \<in> set (rev hyp). 0 \<le> h \<and> h < int v" using toks by simp
  note L = ComputeAttentionScore_flat3[OF cl i len toks eos]
  note R = ComputeAttentionScore_flat3[OF cr i lrev trev eos]
  show ?thesis
    unfolding hyp_score_def rescore_formula_def using b L R
    by (simp add: mul32_def)
qed

text \<open>
  C1, as the code has it. When the decoder graph is run (the list of hypotheses and
  \<open>encoder_outs\<close> are not empty) and answers with left and right probabilities of shape
  \<open>[num_hyps, max_len, vocab]\<close>, with every token and \<open>eos\<close> inside the vocabulary, the
  returned score of hypothesis \<open>i\<close> is \<open>left_score \<times> (1 - reverse_weight) + r_score \<times>
  reverse_weight\<close>. The score under one direction is the sum of \<open>probs[t, hyp[t]]\<close> for
  \<open>t = 0..len-1\<close> plus \<open>probs[len, eos]\<close>; \<open>r_score\<close> is that score of the reversed
  hypothesis under the right probabilities when the model is bidirectional and
  \<open>reverse_weight > 0\<close>, and 0 otherwise. What the caller's vector held before has no
  influence.
\<close>

theorem AttentionRescoring_scores:
  assumes ne: "hyps \<noteq> []" and enc: "encoder_outs_m m \<noteq> []"
    and inp: "rescore_inputs m hyps = Inr inputs"
    and run: "rescore_session_Run S inputs =
               Inr [FloatTensor [int (length hyps), int l, int v] (flat3 left_probs),
                    FloatTensor [int (length hyps), int l, int v] (flat3 right_probs)]"
    and l: "int l = max_hyps_len_of hyps"
    and cl: "cube (length hyps) l v left_probs" and cr: "cube (length hyps) l v right_probs"
    and toks: "\<forall>hyp \<in> set hyps. \<forall>h \<in> set hyp. 0 \<le> h \<and> h < int v"
    and eos: "0 \<le> eos_m m" "eos_m m < int v"
    and b: "int32 (int l * int v)"
  shows "AttentionRescoring S m hyps reverse_weight rescoring_score =
           Inr (map (\<lambda>i. rescore_formula (is_bidirectional_decoder_m m) (eos_m m) reverse_weight
                            (left_probs ! i) (right_probs ! i) (hyps ! i))
                  [0 ..< length hyps],
                [inputs])"
proof -
  let ?g = "\<lambda>i. rescore_formula (is_bidirectional_decoder_m m) (eos_m m) reverse_weight
                   (left_probs ! i) (right_probs ! i) (hyps ! i)"
  let ?f = "hyp_score m reverse_weight (flat3 left_probs) (flat3 right_probs)
              (max_hyps_len_of hyps) (int v)"
  let ?scores = "resize (length hyps) 0 rescoring_score"
  have len_ok: "length (hyps ! k) < l" if "k < length hyps" for k
  proof -
    have "hyps ! k \<in> set hyps" using that by simp
    from max_hyps_len_of_member[OF this] l show ?thesis by simp
  qed
  have l1: "1 \<le> int l" using len_ok[of 0] ne by simp
  have "int v * 1 \<le> int v * int l" using l1 by (intro mult_left_mono) simp_all
  then have "int v < 2 ^ 31" using b by (simp add: int32_def mult.commute)
  then have v32: "to_int32 (int v) = int v" by (intro to_int32_id) simp_all
  have fk: "\<forall>k < length hyps. ?f (0 + k) (hyps ! k) = Inr (?g (0 + k))"
  proof (intro allI impI)
    fix k assume k: "k < length hyps"
    have "hyps ! k \<in> set hyps" using k by simp
    with toks have t: "\<forall>h \<in> set (hyps ! k). 0 \<le> h \<and> h < int v" by blast
    show "?f (0 + k) (hyps ! k) = Inr (?g (0 + k))"
      unfolding l[symmetric] using hyp_score_flat3[OF cl cr k len_ok[OF k] t eos b] by simp
  qed
  have sz: "0 + length hyps \<le> length ?scores" by (simp add: resize_def)
  have loop: "rescoring_loop ?f 0 hyps ?scores = Inr (map ?g [0 ..< length hyps])"
    using rescoring_loop_map[OF fk sz] by (simp add: resize_def)
  have sh: "at_index [int (length hyps), int l, int v] 2 = Inr (int v)"
    by (simp add: at_index_def)
  show ?thesis
    unfolding AttentionRescoring_def Let_def
    using ne enc inp run loop
    by (simp add: at_index_def v32)
qed

theorem AttentionRescoring_scores_witness:
  "[[0, 1], [1]] \<noteq> ([] :: int list list) \<and> encoder_outs_m toy_model_streamed \<noteq> []
   \<and> rescore_inputs toy_model_streamed [[0, 1], [1]] =
       Inr [Int64Tensor [2, 3] [2, 0, 1, 2, 1, 0], Int64Tensor [2] [3, 2],
            FloatTensor [1, 2, 4] (replicate 8 1)]
   \<and> int 3 = max_hyps_len_of [[0, 1], [1]]
   \<and> cube 2 3 3 toy_left_probs \<and> cube 2 3 3 toy_right_probs
   \<and> eos_m toy_model_streamed = 2 \<and> int32 (int 3 * int 3)
   \<and> AttentionRescoring toy_sessions toy_model_streamed [[0, 1], [1]] (1 / 2) [9, 9, 9] =
       Inr (map (\<lambda>i. rescore_formula True 2 (1 / 2) (toy_left_probs ! i) (toy_right_probs ! i)
                        ([[0, 1], [1]] ! i)) [0 ..< 2],
            [[Int64Tensor [2, 3] [2, 0, 1, 2, 1, 0], Int64Tensor [2] [3, 2],
              FloatTensor [1, 2, 4] (replicate 8 1)]])
   \<and> map (\<lambda>i. rescore_formula True 2 (1 / 2) (toy_left_probs ! i) (toy_right_probs ! i)
                ([[0, 1], [1]] ! i)) [0 ..< 2] = [45 / 2, 47 :: real]
   \<and> map (\<lambda>i. spec_rescore True 2 (1 / 2) (toy_left_probs ! i) (toy_right_probs ! i)
                ([[0, 1], [1]] ! i)) [0 ..< 2] = [45 / 2, 47 :: real]"
proof -
  let ?hyps = "[[0, 1], [1]] :: int list list"
  let ?inputs = "[Int64Tensor [2, 3] [2, 0, 1, 2, 1, 0], Int64Tensor [2] [3, 2],
            FloatTensor [1, 2, 4] (replicate 8 1)] :: real Value list"
  have ne: "?hyps \<noteq> []" by simp
  have enc: "encoder_outs_m toy_model_streamed \<noteq> []"
    by (simp add: toy_model_streamed_def)
  have inp: "rescore_inputs toy_model_streamed ?hyps = Inr ?inputs"
    by (simp add: rescore_inputs_def toy_model_streamed_def toy_model_reset_def toy_model_def
        max_hyps_len_of_def pad_hyp_def at_index_def to_int32_def)
  have run: "rescore_session_Run toy_sessions ?inputs =
               Inr [FloatTensor [int (length ?hyps), int 3, int 3] (flat3 toy_left_probs),
                    FloatTensor [int (length ?hyps), int 3, int 3] (flat3 toy_right_probs)]"
    by (simp add: toy_sessions_def)
  have l: "int 3 = max_hyps_len_of ?hyps" by (simp add: max_hyps_len_of_def)
  have cl: "cube (length ?hyps) 3 3 toy_left_probs"
    and cr: "cube (length ?hyps) 3 3 toy_right_probs"
    by (simp_all add: cube_def toy_left_probs_def toy_right_probs_def)
  have toks: "\<forall>hyp \<in> set ?hyps. \<forall>h \<in> set hyp. 0 \<le> h \<and> h < int 3" by simp
  have eos: "0 \<le> eos_m toy_model_streamed" "eos_m toy_model_streamed < int 3"
    and eos2: "eos_m toy_model_streamed = 2"
    and bi: "is_bidirectional_decoder_m toy_model_streamed"
    by (simp_all add: toy_model_streamed_def toy_model_reset_def toy_model_def)
  have b: "int32 (int 3 * int 3)" by (simp add: int32_def)
  have r: "AttentionRescoring toy_sessions toy_model_streamed ?hyps (1 / 2) [9, 9, 9] =
       Inr (map (\<lambda>i. rescore_formula True 2 (1 / 2) (toy_left_probs ! i) (toy_right_probs ! i)
                        (?hyps ! i)) [0 ..< 2], [?inputs])"
    using AttentionRescoring_scores[OF ne enc inp run l cl cr toks eos b, of "1 / 2" "[9, 9, 9]"]
    by (simp add: eos2 bi upt_rec)
  have u: "[0 ..< 2] = [0, Suc 0]" by (simp add: upt_rec)
  have v: "map (\<lambda>i. rescore_formula True 2 (1 / 2) (toy_left_probs ! i) (toy_right_probs ! i)
                (?hyps ! i)) [0 ..< 2] = [45 / 2, 47 :: real]"
    by (simp add: u rescore_formula_def spec_score_def toy_left_probs_def toy_right_probs_def
        upt_rec)
  have w: "map (\<lambda>i. spec_rescore True 2 (1 / 2) (toy_left_probs ! i) (toy_right_probs ! i)
                (?hyps ! i)) [0 ..< 2] = [45 / 2, 47 :: real]"
    by (simp add: u spec_rescore_def spec_score_def toy_left_probs_def toy_right_probs_def
        upt_rec)
  have cl': "cube 2 3 3 toy_left_probs" and cr': "cube 2 3 3 toy_right_probs"
    by (simp_all add: cube_def toy_left_probs_def toy_right_probs_def)
  show ?thesis by (intro conjI ne enc inp l cl' cr' eos2 b r v w)
qed

text \<open>
  The claim C1 as the specification states it fails for a negative \<open>reverse_weight\<close>
  on a bidirectional model: with \<open>reverse_weight = -1\<close> the code takes \<open>r_score = 0\<close>
  and returns \<open>2 \<times> left_score\<close>, 30 and 160 here, where the claim's formula with the
  score of the reversed hypothesis gives 0 and 146.
\<close>

theorem negative_reverse_weight_drops_r_score:
  "AttentionRescoring toy_sessions toy_model_streamed [[0, 1], [1]] (- 1) [] =
     Inr ([30, 160],
          [[Int64Tensor [2, 3] [2, 0, 1, 2, 1, 0], Int64Tensor [2] [3, 2],
            FloatTensor [1, 2, 4] (replicate 8 1)]])
   \<and> map (\<lambda>i. spec_rescore True 2 (- 1) (toy_left_probs ! i) (toy_right_probs ! i)
                ([[0, 1], [1]] ! i)) [0, 1] = [0, 146 :: real]"
proof -
  have inp: "rescore_inputs toy_model_streamed [[0, 1], [1]] =
      Inr [Int64Tensor [2, 3] [2, 0, 1, 2, 1, 0], Int64Tensor [2] [3, 2],
           FloatTensor [1, 2, 4] (replicate 8 1)]"
    by (simp add: rescore_inputs_def toy_model_streamed_def toy_model_reset_def toy_model_def
        max_hyps_len_of_def pad_hyp_def at_index_def to_int32_def)
  have a: "AttentionRescoring toy_sessions toy_model_streamed [[0, 1], [1]] (- 1) [] =
     Inr ([30, 160],
          [[Int64Tensor [2, 3] [2, 0, 1, 2, 1, 0], Int64Tensor [2] [3, 2],
            FloatTensor [1, 2, 4] (replicate 8 1)]])"
    unfolding AttentionRescoring_def Let_def inp
    by (simp add: toy_sessions_def toy_model_streamed_def toy_model_reset_def toy_model_def
        at_index_def to_int32_def max_hyps_len_of_def resize_def hyp_score_def mul32_def int32_def
        ComputeAttentionScore_def flat3_def toy_left_probs_def toy_right_probs_def)
  have b: "map (\<lambda>i. spec_rescore True 2 (- 1) (toy_left_probs ! i) (toy_right_probs ! i)
                ([[0, 1], [1]] ! i)) [0, 1] = [0, 146 :: real]"
    by (simp add: spec_rescore_def spec_score_def toy_left_probs_def toy_right_probs_def upt_rec)
  show ?thesis by (intro conjI a b)
qed

end
